theory Spec2Isabelle
  imports Complex_Main "HOL-Library.AList"
begin

section \<open>JavaScript values\<close>

text \<open>
  The server handles JSON data throughout: request bodies, upstream response bodies and the
  content of the token file. A JavaScript number is a double; for the comparisons the code
  makes (\<open>> 0\<close>, \<open><= 0\<close>, \<open>< 1\<close>, \<open>isNaN\<close>, \<open>Number.isInteger\<close>) a finite double is the
  rational it denotes. A string is its sequence of code units, kept opaque.
\<close>

datatype jsnum = NaN | NegInf | Fin rat | PosInf

datatype jsval =
    JUndefined
  | JNull
  | JBool bool
  | JNum jsnum
  | JStr string
  | JArr "jsval list"
  | JObj "(string \<times> jsval) list"

text \<open>ToBoolean.\<close>

fun truthy :: "jsval \<Rightarrow> bool" where
  "truthy JUndefined = False"
| "truthy JNull = False"
| "truthy (JBool b) = b"
| "truthy (JNum n) = (n \<noteq> NaN \<and> n \<noteq> Fin 0)"
| "truthy (JStr s) = (s \<noteq> [])"
| "truthy (JArr xs) = True"
| "truthy (JObj ps) = True"

definition nullish :: "jsval \<Rightarrow> bool" where
  "nullish v = (v = JUndefined \<or> v = JNull)"

text \<open>
  \<open>v.k\<close> for the fixed property names the server reads (\<open>etsy\<close>, \<open>access_token\<close>,
  \<open>refresh_token\<close>, \<open>error\<close>, \<open>error_description\<close>, \<open>listing_id\<close>, \<open>listing_image_id\<close>,
  \<open>products\<close>, \<open>scope\<close>, \<open>expires_in\<close> and the fields of the listing body): none of them
  is inherited from a prototype, so only an own property of an object yields a value.
  Reading a property of \<open>null\<close> or \<open>undefined\<close> throws; \<open>v?.k\<close> yields \<open>undefined\<close> there.
\<close>

fun member_of :: "jsval \<Rightarrow> string \<Rightarrow> jsval" where
  "member_of (JObj ps) k = (case map_of ps k of Some v \<Rightarrow> v | None \<Rightarrow> JUndefined)"
| "member_of v k = JUndefined"

definition opt_chain :: "jsval \<Rightarrow> string \<Rightarrow> jsval" where
  "opt_chain v k = (if nullish v then JUndefined else member_of v k)"

text \<open>\<open>a || b\<close> on values.\<close>

definition js_or :: "jsval \<Rightarrow> jsval \<Rightarrow> jsval" where
  "js_or a b = (if truthy a then a else b)"

subsection \<open>Substrings\<close>

definition starts_with :: "string \<Rightarrow> string \<Rightarrow> bool" where
  "starts_with p s = (take (length p) s = p)"

text \<open>\<open>s.includes(n)\<close> on strings.\<close>

fun str_includes :: "string \<Rightarrow> string \<Rightarrow> bool" where
  "str_includes [] n = (n = [])"
| "str_includes (c # cs) n = (starts_with n (c # cs) \<or> str_includes cs n)"

text \<open>\<open>String(n)\<close> for a non-negative integer: its decimal digits.\<close>

definition digit_char :: "nat \<Rightarrow> char" where
  "digit_char d = char_of (48 + d)"

fun show_nat :: "nat \<Rightarrow> string" where
  "show_nat n = (if n < 10 then [digit_char n] else show_nat (n div 10) @ [digit_char (n mod 10)])"

declare show_nat.simps [simp del]

section \<open>Errors, upstream calls, the environment\<close>

record http_response =
  status :: nat
  data :: jsval

text \<open>
  What an axios call rejects with: \<open>err.response\<close> is present when the upstream answered
  with an error status and absent on a network failure; \<open>err.message\<close> is always there.
\<close>

record axios_error =
  response :: "http_response option"
  message :: string

datatype axios_result = Resolved http_response | Rejected axios_error

datatype exn =
    TypeError string
  | SyntaxError string
  | FsError string
  | AxiosError axios_error

text \<open>\<open>err.message\<close> of a thrown value.\<close>

fun exn_message :: "exn \<Rightarrow> string" where
  "exn_message (TypeError m) = m"
| "exn_message (SyntaxError m) = m"
| "exn_message (FsError m) = m"
| "exn_message (AxiosError e) = message e"

fun exn_response :: "exn \<Rightarrow> http_response option" where
  "exn_response (AxiosError e) = response e"
| "exn_response e = None"

text \<open>
  The outgoing HTTP calls of the server. Each carries what the code puts into the request
  and what a claim may depend on.
\<close>

datatype call =
    TokenExchange string jsval
      \<comment> \<open>POST oauth/token, grant \<open>authorization_code\<close>: code, code verifier\<close>
  | TokenRefresh jsval
      \<comment> \<open>POST oauth/token, grant \<open>refresh_token\<close>: refresh token\<close>
  | GetUsersMe jsval
      \<comment> \<open>GET users/me with the bearer token\<close>
  | CreateListing jsval jsval
      \<comment> \<open>POST shops/SHOP_ID/listings: bearer token, payload\<close>
  | DownloadImage jsval
      \<comment> \<open>GET of a remote image, written to a temporary file\<close>
  | UploadImage jsval jsval jsval string
      \<comment> \<open>POST listings/ID/images: bearer token, listing id, source entry, rank\<close>
  | PutInventory jsval jsval jsval
      \<comment> \<open>PUT listings/ID/inventory: bearer token, listing id, payload\<close>
  | PostVideo jsval jsval
      \<comment> \<open>POST listings/ID/videos: bearer token, listing id\<close>

text \<open>
  The operations on local files that can throw: the write of the token file
  (\<open>saveTokens\<close>), and, in the image block, the creation of the directory of temporary
  files, the write of a downloaded image to a temporary file and the removal of that file.
\<close>

datatype fs_op =
    WriteTokens
  | MkdirTmp
  | WriteTemp jsval
  | UnlinkTemp jsval

text \<open>
  Everything the program takes from outside: the conversions of the JavaScript runtime
  that are not written out here, the process environment, the upstream servers, whose
  answer to a call may depend on every call made before it, and the file system, which
  makes a local file operation throw (with the message given) or lets it succeed, depending
  on the calls and the file operations made before it.
\<close>

record env =
  ToNumber :: "jsval \<Rightarrow> jsnum"
  ToString :: "jsval \<Rightarrow> string"
  str_trim :: "string \<Rightarrow> string"
  JSON_parse :: "string \<Rightarrow> exn + jsval"
  JSON_stringify :: "jsval \<Rightarrow> string"
  SHOP_ID :: "string option"
  video_present :: bool
  upstream :: "call list \<Rightarrow> call \<Rightarrow> axios_result"
  fs_fault :: "call list \<Rightarrow> fs_op list \<Rightarrow> fs_op \<Rightarrow> string option"

text \<open>\<open>Number(v)\<close> and \<open>String(v)\<close>: written out on the primitive cases.\<close>

definition js_Number :: "env \<Rightarrow> jsval \<Rightarrow> jsnum" where
  "js_Number rt v =
     (case v of
        JUndefined \<Rightarrow> NaN
      | JNull \<Rightarrow> Fin 0
      | JBool b \<Rightarrow> Fin (if b then 1 else 0)
      | JNum n \<Rightarrow> n
      | _ \<Rightarrow> ToNumber rt v)"

definition js_String :: "env \<Rightarrow> jsval \<Rightarrow> string" where
  "js_String rt v =
     (case v of
        JUndefined \<Rightarrow> ''undefined''
      | JNull \<Rightarrow> ''null''
      | JBool b \<Rightarrow> (if b then ''true'' else ''false'')
      | JStr s \<Rightarrow> s
      | _ \<Rightarrow> ToString rt v)"

section \<open>The state of the process\<close>

text \<open>
  What reading the token file finds: it is missing, it is there but cannot be read, or it
  holds text. Whether it can be written is a separate matter (a read-only file, a full
  disk): the file system decides it at each write.
\<close>

datatype file_state = NoFile | Unreadable | FileText string

record pkce_entry =
  code_verifier :: string
  createdAt :: nat

record world =
  token_file :: file_state
  pkceStore :: "string \<rightharpoonup> pkce_entry"
  calls :: "call list"
  fs_log :: "fs_op list"

text \<open>An awaited axios call: the upstream answers, the call is on record.\<close>

definition http :: "env \<Rightarrow> world \<Rightarrow> call \<Rightarrow> axios_result \<times> world" where
  "http rt w c = (upstream rt (calls w) c, w\<lparr>calls := calls w @ [c]\<rparr>)"

text \<open>A local file operation: it throws or not, and is on record.\<close>

definition local_op :: "env \<Rightarrow> world \<Rightarrow> fs_op \<Rightarrow> exn option \<times> world" where
  "local_op rt w op =
     (map_option FsError (fs_fault rt (calls w) (fs_log w) op), w\<lparr>fs_log := fs_log w @ [op]\<rparr>)"

section \<open>Token storage\<close>

definition existsSync :: "file_state \<Rightarrow> bool" where
  "existsSync f = (f \<noteq> NoFile)"

definition readFileSync :: "file_state \<Rightarrow> exn + string" where
  "readFileSync f =
     (case f of
        NoFile \<Rightarrow> Inl (FsError ''ENOENT'')
      | Unreadable \<Rightarrow> Inl (FsError ''EISDIR'')
      | FileText s \<Rightarrow> Inr s)"

text \<open>\<open>try { body } catch (e) { handler }\<close> on results.\<close>

definition try_catch :: "exn + 'a \<Rightarrow> (exn \<Rightarrow> exn + 'a) \<Rightarrow> exn + 'a" where
  "try_catch body handler = (case body of Inl e \<Rightarrow> handler e | Inr x \<Rightarrow> Inr x)"

definition readTokens :: "env \<Rightarrow> file_state \<Rightarrow> exn + jsval" where
  "readTokens rt f =
     (if \<not> existsSync f then Inr (JObj [])
      else try_catch
             (case readFileSync f of Inl e \<Rightarrow> Inl e | Inr s \<Rightarrow> JSON_parse rt s)
             (\<lambda>e. Inr (JObj [])))"

text \<open>
  \<open>fs.writeFileSync(tokenFile, JSON.stringify(obj, null, 2))\<close>: when the write throws, the
  file is as it was.
\<close>

definition saveTokens :: "env \<Rightarrow> jsval \<Rightarrow> world \<Rightarrow> exn option \<times> world" where
  "saveTokens rt obj w =
     (case local_op rt w WriteTokens of
        (Some e, w1) \<Rightarrow> (Some e, w1)
      | (None, w1) \<Rightarrow> (None, w1\<lparr>token_file := FileText (JSON_stringify rt obj)\<rparr>))"

text \<open>
  \<open>store.etsy = tokens\<close>: throws on \<open>null\<close> and \<open>undefined\<close>; on an object it replaces the
  property in place or appends it; on any other value (the module is not in strict mode)
  it leaves nothing that \<open>JSON.stringify\<close> would print.
\<close>

fun set_prop :: "jsval \<Rightarrow> string \<Rightarrow> jsval \<Rightarrow> exn + jsval" where
  "set_prop JUndefined k v = Inl (TypeError ''Cannot set properties of undefined'')"
| "set_prop JNull k v = Inl (TypeError ''Cannot set properties of null'')"
| "set_prop (JObj ps) k v = Inr (JObj (AList.update k v ps))"
| "set_prop x k v = Inr x"

section \<open>Replies of the server\<close>

datatype body = Text string | Json jsval

datatype reply = Reply nat body

text \<open>
  How a handler ends: it has sent a reply, it has returned without sending one (the client
  gets no answer), or its promise has rejected outside every \<open>try\<close>.
\<close>

datatype outcome = Sent reply | NoReply | Unhandled exn

section \<open>OAuth callback\<close>

record callback_query =
  q_code :: "string option"
  q_state :: "string option"
  q_error :: "string option"
  q_error_description :: "string option"

text \<open>
  The query parameters the handler reads, as strings (a repeated or bracketed parameter,
  which the query parser would turn into an array or an object, is not covered). A
  parameter is truthy when it is there and not empty.
\<close>

definition present :: "string option \<Rightarrow> bool" where
  "present p = (case p of Some s \<Rightarrow> s \<noteq> [] | None \<Rightarrow> False)"

definition qstr :: "string option \<Rightarrow> string" where
  "qstr p = (case p of Some s \<Rightarrow> s | None \<Rightarrow> [])"

text \<open>
  \<open>pkceStore\<close> is a plain object literal, and \<open>pkceStore[state]\<close> reads through its
  prototype: for a key that was never stored, the lookup still yields a (truthy) value when
  the key names a property of \<open>Object.prototype\<close>.
\<close>

definition object_prototype_keys :: "string list" where
  "object_prototype_keys =
     [''constructor'', ''__defineGetter__'', ''__defineSetter__'', ''hasOwnProperty'',
      ''__lookupGetter__'', ''__lookupSetter__'', ''isPrototypeOf'', ''propertyIsEnumerable'',
      ''toString'', ''valueOf'', ''__proto__'', ''toLocaleString'']"

datatype pkce_found = Own pkce_entry | Inherited | Absent

definition pkce_get :: "(string \<rightharpoonup> pkce_entry) \<Rightarrow> string \<Rightarrow> pkce_found" where
  "pkce_get store state =
     (case store state of
        Some e \<Rightarrow> Own e
      | None \<Rightarrow> if state \<in> set object_prototype_keys then Inherited else Absent)"

text \<open>\<open>const { code_verifier } = entry\<close>: undefined on an inherited value.\<close>

fun entry_verifier :: "pkce_found \<Rightarrow> jsval" where
  "entry_verifier (Own e) = JStr (code_verifier e)"
| "entry_verifier Inherited = JUndefined"
| "entry_verifier Absent = JUndefined"

definition callback_success_message :: string where
  "callback_success_message =
     ''OAuth success '' @ [CHR 0xE2, CHR 0x80, CHR 0x94] @ '' tokens saved (demo).''"

definition property_of_nullish :: exn where
  "property_of_nullish = TypeError ''Cannot read properties of null or undefined''"

text \<open>The \<open>try\<close> block of the callback; the state it leaves is kept when it throws.\<close>

definition callback_try :: "env \<Rightarrow> world \<Rightarrow> string \<Rightarrow> jsval \<Rightarrow> world \<times> (exn + reply)" where
  "callback_try rt w code verifier =
     (case http rt w (TokenExchange code verifier) of
        (Rejected err, w1) \<Rightarrow> (w1, Inl (AxiosError err))
      | (Resolved resp, w1) \<Rightarrow>
          (let tokens = data resp in
           case readTokens rt (token_file w1) of
             Inl e \<Rightarrow> (w1, Inl e)
           | Inr store \<Rightarrow>
               (case set_prop store ''etsy'' tokens of
                  Inl e \<Rightarrow> (w1, Inl e)
                | Inr store' \<Rightarrow>
                    (case saveTokens rt store' w1 of
                       (Some e, w2) \<Rightarrow> (w2, Inl e)
                     | (None, w2) \<Rightarrow>
                         if nullish tokens then (w2, Inl property_of_nullish)
                         else (w2, Inr (Reply 200 (Json (JObj
                                 [(''message'', JStr callback_success_message),
                                  (''scope'', member_of tokens ''scope''),
                                  (''expires_in'', member_of tokens ''expires_in'')]))))))))"

definition auth_callback :: "env \<Rightarrow> world \<Rightarrow> callback_query \<Rightarrow> world \<times> outcome" where
  "auth_callback rt w q =
     (if present (q_error q) then
        (w, Sent (Reply 400 (Text (''Auth error: '' @ qstr (q_error q) @ '' - ''
                                   @ qstr (q_error_description q)))))
      else if \<not> present (q_code q) \<or> \<not> present (q_state q) then
        (w, Sent (Reply 400 (Text ''Missing code or state'')))
      else
        (let code = qstr (q_code q); state = qstr (q_state q);
             entry = pkce_get (pkceStore w) state
         in if entry = Absent then
              (w, Sent (Reply 400
                 (Text ''Missing PKCE verifier for this state. Try logging in again.'')))
            else
              (case callback_try rt (w\<lparr>pkceStore := (pkceStore w)(state := None)\<rparr>)
                      code (entry_verifier entry) of
                 (w', Inr rep) \<Rightarrow> (w', Sent rep)
               | (w', Inl e) \<Rightarrow>
                   (w', Sent (Reply 500
                      (Text ''Token exchange failed. Check server logs for details.''))))))"

section \<open>Token refresh\<close>

definition stored_token :: "jsval \<Rightarrow> string \<Rightarrow> jsval" where
  "stored_token store k = opt_chain (opt_chain store ''etsy'') k"

definition refresh_try :: "env \<Rightarrow> world \<Rightarrow> jsval \<Rightarrow> jsval \<Rightarrow> world \<times> (exn + jsval)" where
  "refresh_try rt w store refresh_token =
     (case http rt w (TokenRefresh refresh_token) of
        (Rejected err, w1) \<Rightarrow> (w1, Inl (AxiosError err))
      | (Resolved resp, w1) \<Rightarrow>
          (let tokens = data resp in
           case set_prop store ''etsy'' tokens of
             Inl e \<Rightarrow> (w1, Inl e)
           | Inr store' \<Rightarrow>
               (case saveTokens rt store' w1 of
                  (Some e, w2) \<Rightarrow> (w2, Inl e)
                | (None, w2) \<Rightarrow>
                    if nullish tokens then (w2, Inl property_of_nullish)
                    else (w2, Inr tokens))))"

definition token_refresh :: "env \<Rightarrow> world \<Rightarrow> world \<times> outcome" where
  "token_refresh rt w =
     (case readTokens rt (token_file w) of
        Inl e \<Rightarrow> (w, Unhandled e)
      | Inr store \<Rightarrow>
          (let refresh_token = stored_token store ''refresh_token'' in
           if \<not> truthy refresh_token then
             (w, Sent (Reply 400 (Text ''No refresh token stored. Re-authenticate.'')))
           else
             (case refresh_try rt w store refresh_token of
                (w', Inr tokens) \<Rightarrow>
                  (w', Sent (Reply 200 (Json (JObj
                     [(''message'', JStr ''Refreshed tokens saved''),
                      (''expires_in'', member_of tokens ''expires_in'')]))))
              | (w', Inl e) \<Rightarrow> (w', Sent (Reply 500 (Text ''Token refresh failed.''))))))"

section \<open>Access token helpers\<close>

text \<open>
  What a token helper gives its caller: a token, \<open>null\<close> (after sending the reply given, or
  after sending nothing), or a rejection.
\<close>

datatype token_result = Token jsval | NoToken "reply option" | Thrown exn

definition getAccessTokenOr401 :: "env \<Rightarrow> world \<Rightarrow> token_result" where
  "getAccessTokenOr401 rt w =
     (case readTokens rt (token_file w) of
        Inl e \<Rightarrow> Thrown e
      | Inr store \<Rightarrow>
          (let access_token = stored_token store ''access_token'' in
           if \<not> truthy access_token then
             NoToken (Some (Reply 401
               (Text ''No access token available. Authenticate via /auth/login'')))
           else Token access_token))"

text \<open>\<open>v.includes(n)\<close> for a value that is neither \<open>null\<close> nor \<open>undefined\<close>.\<close>

definition js_includes :: "jsval \<Rightarrow> string \<Rightarrow> exn + bool" where
  "js_includes v n =
     (case v of
        JStr s \<Rightarrow> Inr (str_includes s n)
      | JArr xs \<Rightarrow> Inr (JStr n \<in> set xs)
      | _ \<Rightarrow> Inl (TypeError ''includes is not a function''))"

text \<open>\<open>err.response?.data\<close>.\<close>

definition err_data :: "axios_error \<Rightarrow> jsval" where
  "err_data err = (case response err of None \<Rightarrow> JUndefined | Some r \<Rightarrow> data r)"

text \<open>
  \<open>err.response?.data?.error === "invalid_token" ||
   err.response?.data?.error_description?.includes("expired")\<close>
\<close>

definition signals_expired :: "axios_error \<Rightarrow> exn + bool" where
  "signals_expired err =
     (if opt_chain (err_data err) ''error'' = JStr ''invalid_token'' then Inr True
      else
        (let d = opt_chain (err_data err) ''error_description'' in
         if nullish d then Inr False else js_includes d ''expired''))"

definition getValidAccessToken :: "env \<Rightarrow> world \<Rightarrow> token_result \<times> world" where
  "getValidAccessToken rt w =
     (case getAccessTokenOr401 rt w of
        Thrown e \<Rightarrow> (Thrown e, w)
      | NoToken r \<Rightarrow> (NoToken r, w)
      | Token access_token \<Rightarrow>
          (case http rt w (GetUsersMe access_token) of
             (Resolved resp, w1) \<Rightarrow> (Token access_token, w1)
           | (Rejected err, w1) \<Rightarrow>
               (case signals_expired err of
                  Inl e \<Rightarrow> (Thrown e, w1)
                | Inr False \<Rightarrow> (Thrown (AxiosError err), w1)
                | Inr True \<Rightarrow>
                    (case readTokens rt (token_file w1) of
                       Inl e \<Rightarrow>
                         (NoToken (Some (Reply 401
                            (Text ''Token refresh failed. Re-authenticate.''))), w1)
                     | Inr store \<Rightarrow>
                         (let refresh_token = stored_token store ''refresh_token'' in
                          if \<not> truthy refresh_token then (NoToken None, w1)
                          else
                            (case refresh_try rt w1 store refresh_token of
                               (w2, Inr tokens) \<Rightarrow>
                                 (Token (member_of tokens ''access_token''), w2)
                             | (w2, Inl e) \<Rightarrow>
                                 (NoToken (Some (Reply 401
                                    (Text ''Token refresh failed. Re-authenticate.''))),
                                  w2)))))))"

section \<open>Listing creation: validation\<close>

fun num_gt0 :: "jsnum \<Rightarrow> bool" where
  "num_gt0 (Fin r) = (0 < r)"
| "num_gt0 PosInf = True"
| "num_gt0 n = False"

fun num_le0 :: "jsnum \<Rightarrow> bool" where
  "num_le0 (Fin r) = (r \<le> 0)"
| "num_le0 NegInf = True"
| "num_le0 n = False"

fun num_lt1 :: "jsnum \<Rightarrow> bool" where
  "num_lt1 (Fin r) = (r < 1)"
| "num_lt1 NegInf = True"
| "num_lt1 n = False"

definition isNaN :: "jsnum \<Rightarrow> bool" where
  "isNaN n = (n = NaN)"

fun isInteger :: "jsnum \<Rightarrow> bool" where
  "isInteger (Fin r) = (of_int \<lfloor>r\<rfloor> = r)"
| "isInteger n = False"

text \<open>\<open>typeof val === "number" && val > 0\<close>\<close>

fun validPositiveNumber :: "jsval \<Rightarrow> bool" where
  "validPositiveNumber (JNum n) = num_gt0 n"
| "validPositiveNumber v = False"

text \<open>\<open>!v || typeof v !== "string" || !v.trim()\<close>\<close>

definition missing_text :: "env \<Rightarrow> jsval \<Rightarrow> bool" where
  "missing_text rt v =
     (\<not> truthy v \<or> (case v of JStr s \<Rightarrow> str_trim rt s = [] | _ \<Rightarrow> True))"

text \<open>\<open>[...].includes(v)\<close> on an array of string literals.\<close>

definition one_of :: "string list \<Rightarrow> jsval \<Rightarrow> bool" where
  "one_of xs v = (v \<in> JStr ` set xs)"

definition when_made_values :: "string list" where
  "when_made_values =
     [''made_to_order'', ''2020_2024'', ''2010_2019'', ''2006_2009'', ''before_2006'',
      ''2000_2005'', ''1990s'', ''1980s'', ''1970s'', ''1960s'', ''1950s'', ''1940s'',
      ''1930s'', ''1920s'', ''1910s'', ''1900s'', ''1800s'', ''1700s'', ''before_1700'']"

text \<open>\<open>if (c) errors.push(m)\<close>\<close>

definition check :: "bool \<Rightarrow> string \<Rightarrow> string list" where
  "check c m = (if c then [m] else [])"

text \<open>
  The validation of \<open>POST /listings\<close>. \<open>g\<close> gives the destructured fields of the body
  (\<open>undefined\<close> for a field that is not there); the result is the \<open>errors\<close> array.
\<close>

definition validate :: "env \<Rightarrow> (string \<Rightarrow> jsval) \<Rightarrow> string list" where
  "validate rt g =
     check (missing_text rt (g ''title'')) ''title is required''
   @ check (missing_text rt (g ''description'')) ''description is required''
   @ check (g ''price'' = JUndefined \<or> isNaN (js_Number rt (g ''price''))
            \<or> num_le0 (js_Number rt (g ''price'')))
       ''price must be a positive number''
   @ check (g ''quantity'' = JUndefined \<or> isNaN (js_Number rt (g ''quantity''))
            \<or> \<not> isInteger (js_Number rt (g ''quantity''))
            \<or> num_le0 (js_Number rt (g ''quantity'')))
       ''quantity must be a positive integer''
   @ check (\<not> truthy (g ''who_made'')
            \<or> \<not> one_of [''i_did'', ''someone_else'', ''collective''] (g ''who_made''))
       ''who_made must be one of: i_did, someone_else, collective''
   @ check (\<not> truthy (g ''when_made'') \<or> \<not> one_of when_made_values (g ''when_made''))
       ''Invalid when_made value''
   @ check (\<not> truthy (g ''sku'')) ''Sku required''
   @ check (\<not> truthy (g ''taxonomy_id'') \<or> isNaN (js_Number rt (g ''taxonomy_id''))
            \<or> num_lt1 (js_Number rt (g ''taxonomy_id'')))
       ''taxonomy_id must be a positive integer''
   @ check (truthy (g ''type'') \<and> \<not> one_of [''physical'', ''download'', ''both''] (g ''type''))
       ''type must be one of: physical, download, both''
   @ check (truthy (g ''item_weight_unit'')
            \<and> \<not> one_of [''oz'', ''lb'', ''g'', ''kg''] (g ''item_weight_unit''))
       ''item_weight_unit must be one of: oz, lb, g, kg''
   @ check (truthy (g ''item_dimensions_unit'')
            \<and> \<not> one_of [''in'', ''ft'', ''mm'', ''cm'', ''m'', ''yd'', ''inches'']
                  (g ''item_dimensions_unit''))
       ''item_dimensions_unit must be one of: in, ft, mm, cm, m, yd, inches''
   @ (if g ''type'' = JStr ''physical'' then
        check (g ''item_weight'' \<noteq> JUndefined \<and> \<not> validPositiveNumber (g ''item_weight''))
          ''item_weight must be a positive number if set''
      @ check (g ''item_length'' \<noteq> JUndefined \<and> \<not> validPositiveNumber (g ''item_length''))
          ''item_length must be a positive number if set''
      @ check (g ''item_width'' \<noteq> JUndefined \<and> \<not> validPositiveNumber (g ''item_width''))
          ''item_width must be a positive number if set''
      @ check (g ''item_height'' \<noteq> JUndefined \<and> \<not> validPositiveNumber (g ''item_height''))
          ''item_height must be a positive number if set''
      else [])"

definition validation_reply :: "string list \<Rightarrow> reply" where
  "validation_reply errors = Reply 400 (Json (JObj [(''errors'', JArr (map JStr errors))]))"

section \<open>Listing creation: the draft\<close>

definition payload_fields :: "string list" where
  "payload_fields =
     [''title'', ''description'', ''price'', ''quantity'', ''who_made'', ''when_made'',
      ''taxonomy_id'', ''shipping_profile_id'', ''return_policy_id'', ''materials'',
      ''shop_section_id'', ''processing_min'', ''processing_max'', ''readiness_state_id'',
      ''tags'', ''styles'', ''is_personalizable'', ''personalization_is_required'',
      ''personalization_char_count_max'', ''personalization_instructions'',
      ''production_partner_ids'', ''image_ids'', ''is_supply'', ''is_customizable'',
      ''should_auto_renew'', ''is_taxable'', ''type'', ''legacy'']"

text \<open>\<open>typeof v === "object"\<close>\<close>

fun typeof_object :: "jsval \<Rightarrow> bool" where
  "typeof_object JNull = True"
| "typeof_object (JArr xs) = True"
| "typeof_object (JObj ps) = True"
| "typeof_object v = False"

definition sku_offering :: "jsval \<Rightarrow> (string \<Rightarrow> jsval) \<Rightarrow> jsval" where
  "sku_offering sku g =
     JObj [(''sku'', sku), (''property_values'', JArr []),
           (''offerings'', JArr [JObj [(''price'', g ''price''), (''quantity'', g ''quantity''),
                                       (''is_enabled'', JBool True)]])]"

definition build_payload :: "(string \<Rightarrow> jsval) \<Rightarrow> jsval" where
  "build_payload g =
     JObj (filter (\<lambda>(k, v). v \<noteq> JUndefined)
       (map (\<lambda>k. (k, g k)) payload_fields
        @ (if g ''type'' = JStr ''physical'' then
             map (\<lambda>k. (k, g k))
               (filter (\<lambda>k. validPositiveNumber (g k))
                  [''item_weight'', ''item_length'', ''item_width'', ''item_height''])
             @ map (\<lambda>k. (k, g k))
                 (filter (\<lambda>k. truthy (g k)) [''item_weight_unit'', ''item_dimensions_unit''])
           else [])
        @ (if truthy (g ''inventory'') \<and> typeof_object (g ''inventory'') then
             [(''inventory'', g ''inventory'')]
           else if truthy (g ''sku'') then
             [(''inventory'', JObj [(''products'', JArr [sku_offering (g ''sku'') g])])]
           else [])))"

section \<open>Listing creation: image upload\<close>

text \<open>\<open>/^https?:\/\//i.test(str)\<close>\<close>

definition url_prefix :: "string \<Rightarrow> bool" where
  "url_prefix s =
     (case s of
        h # t # t' # p # rest \<Rightarrow>
          h \<in> set ''hH'' \<and> t \<in> set ''tT'' \<and> t' \<in> set ''tT'' \<and> p \<in> set ''pP''
          \<and> (starts_with ''://'' rest
             \<or> (case rest of
                   c # rest' \<Rightarrow> c \<in> set ''sS'' \<and> starts_with ''://'' rest'
                 | [] \<Rightarrow> False))
      | _ \<Rightarrow> False)"

definition isUrl :: "env \<Rightarrow> jsval \<Rightarrow> bool" where
  "isUrl rt v = url_prefix (js_String rt v)"

definition transient_text :: string where
  "transient_text = ''is being edited by another process''"

text \<open>\<open>imgErr.response?.data?.error || imgErr.message\<close>, for whatever was thrown.\<close>

definition exn_data :: "exn \<Rightarrow> jsval" where
  "exn_data e = (case exn_response e of None \<Rightarrow> JUndefined | Some r \<Rightarrow> data r)"

definition error_msg :: "exn \<Rightarrow> jsval" where
  "error_msg e = js_or (opt_chain (exn_data e) ''error'') (JStr (exn_message e))"

text \<open>
  \<open>errorMsg && errorMsg.includes("is being edited by another process")
   && attempt < maxRetries - 1\<close>
\<close>

definition should_retry :: "exn \<Rightarrow> nat \<Rightarrow> nat \<Rightarrow> exn + bool" where
  "should_retry e attempt maxRetries =
     (if \<not> truthy (error_msg e) then Inr False
      else
        (case js_includes (error_msg e) transient_text of
           Inl e' \<Rightarrow> Inl e'
         | Inr b \<Rightarrow> Inr (b \<and> attempt + 1 < maxRetries)))"


fun valid_path :: "jsval \<Rightarrow> bool" where
  "valid_path (JStr s) = (CHR 0x00 \<notin> set s)"
| "valid_path v = False"

definition not_a_path :: exn where
  "not_a_path = TypeError ''The path argument must be a string without null bytes''"

text \<open>
  The first statement of the \<open>try\<close> block: when the entry is a URL it is downloaded and
  written to a temporary file. Gives what was thrown, if anything, whether the temporary
  file now exists, and the state. A write that throws leaves no file.
\<close>

definition fetch_remote :: "env \<Rightarrow> jsval \<Rightarrow> world \<Rightarrow> exn option \<times> bool \<times> world" where
  "fetch_remote rt filePath w =
     (if isUrl rt filePath then
        (case http rt w (DownloadImage filePath) of
           (Rejected err, w1) \<Rightarrow> (Some (AxiosError err), False, w1)
         | (Resolved resp, w1) \<Rightarrow>
             (case filePath of
                JStr url \<Rightarrow>
                  (case local_op rt w1 (WriteTemp filePath) of
                     (Some e, w2) \<Rightarrow> (Some e, False, w2)
                   | (None, w2) \<Rightarrow> (None, True, w2))
              | _ \<Rightarrow> (Some not_a_path, False, w1)))
      else (None, False, w))"

text \<open>
  The \<open>try\<close> block of one pass of the loop: the download when the entry is a URL, then
  the upload. It throws what a call rejects with or what a file operation throws, returns
  the id as a string when the response carries one (after removing the temporary file), and
  falls through to the \<open>break\<close> otherwise. With the result come whether a temporary file
  exists at that point, and the state. The path that is opened is the temporary file
  when there is one and the entry otherwise; the stream is read only while the upload
  request is sent, so a file that cannot be read shows as a rejection of that request.
\<close>

definition upload_try ::
  "env \<Rightarrow> jsval \<Rightarrow> jsval \<Rightarrow> jsval \<Rightarrow> nat \<Rightarrow> world
   \<Rightarrow> (exn + string option) \<times> bool \<times> world" where
  "upload_try rt access_token listing_id filePath i w =
     (case fetch_remote rt filePath w of
        (Some e, tempFile, w1) \<Rightarrow> (Inl e, tempFile, w1)
      | (None, tempFile, w1) \<Rightarrow>
          (if tempFile \<or> valid_path filePath then
             (case http rt w1
                     (UploadImage access_token listing_id filePath (show_nat (i + 1))) of
                (Rejected err, w2) \<Rightarrow> (Inl (AxiosError err), tempFile, w2)
              | (Resolved resp, w2) \<Rightarrow>
                  (if truthy (data resp) \<and> truthy (member_of (data resp) ''listing_image_id'')
                   then
                     (if tempFile then
                        (case local_op rt w2 (UnlinkTemp filePath) of
                           (Some e, w3) \<Rightarrow> (Inl e, True, w3)
                         | (None, w3) \<Rightarrow>
                             (Inr (Some (js_String rt
                                (member_of (data resp) ''listing_image_id''))), False, w3))
                      else
                        (Inr (Some (js_String rt
                           (member_of (data resp) ''listing_image_id''))), False, w2))
                   else (Inr None, tempFile, w2)))
           else (Inl not_a_path, tempFile, w1)))"

text \<open>
  How one pass of the \<open>while\<close> loop ends: \<open>return\<close> of an id, \<open>break\<close>, \<open>continue\<close>, or
  a throw out of the function.
\<close>

datatype pass_result = Return string | Break | Continue | Raise exn

text \<open>
  The \<open>finally\<close> block: the temporary file, when one exists, is removed; when that throws,
  the throw replaces the way the pass was about to end.
\<close>

definition finally_unlink ::
  "env \<Rightarrow> jsval \<Rightarrow> bool \<Rightarrow> pass_result \<Rightarrow> world \<Rightarrow> pass_result \<times> world" where
  "finally_unlink rt filePath tempFile r w =
     (if tempFile then
        (case local_op rt w (UnlinkTemp filePath) of
           (Some e, w1) \<Rightarrow> (Raise e, w1)
         | (None, w1) \<Rightarrow> (r, w1))
      else (r, w))"

text \<open>
  How the \<open>try\<close> block and the \<open>catch\<close> clause mean to end the pass, before \<open>finally\<close>
  runs: an id is returned; without an id the pass falls through to the \<open>break\<close>; what was
  thrown is looked at by the \<open>catch\<close> clause, which goes on to the next attempt, breaks,
  or throws itself.
\<close>

definition pass_end :: "exn + string option \<Rightarrow> nat \<Rightarrow> nat \<Rightarrow> pass_result" where
  "pass_end x attempt maxRetries =
     (case x of
        Inr (Some image_id) \<Rightarrow> Return image_id
      | Inr None \<Rightarrow> Break
      | Inl e \<Rightarrow>
          (case should_retry e attempt maxRetries of
             Inl e' \<Rightarrow> Raise e'
           | Inr True \<Rightarrow> Continue
           | Inr False \<Rightarrow> Break))"

text \<open>One pass: \<open>try\<close>, \<open>catch\<close>, \<open>finally\<close>. The two-second waits are left out.\<close>

definition upload_pass ::
  "env \<Rightarrow> jsval \<Rightarrow> jsval \<Rightarrow> jsval \<Rightarrow> nat \<Rightarrow> nat \<Rightarrow> nat \<Rightarrow> world \<Rightarrow> pass_result \<times> world" where
  "upload_pass rt access_token listing_id filePath i maxRetries attempt w =
     (case upload_try rt access_token listing_id filePath i w of
        (x, tempFile, w1) \<Rightarrow>
          finally_unlink rt filePath tempFile (pass_end x attempt maxRetries) w1)"

datatype upload_result = ImageId string | Null | Throws exn

function uploadImageWithRetry_from ::
  "env \<Rightarrow> jsval \<Rightarrow> jsval \<Rightarrow> jsval \<Rightarrow> nat \<Rightarrow> nat \<Rightarrow> nat \<Rightarrow> world \<Rightarrow> upload_result \<times> world" where
  "uploadImageWithRetry_from rt access_token listing_id filePath i maxRetries attempt w =
     (if attempt < maxRetries then
        (case upload_pass rt access_token listing_id filePath i maxRetries attempt w of
           (Return image_id, w1) \<Rightarrow> (ImageId image_id, w1)
         | (Break, w1) \<Rightarrow> (Null, w1)
         | (Continue, w1) \<Rightarrow>
             uploadImageWithRetry_from rt access_token listing_id filePath i maxRetries
               (attempt + 1) w1
         | (Raise e, w1) \<Rightarrow> (Throws e, w1))
      else (Null, w))"
  by pat_completeness auto
termination
  by (relation "measure (\<lambda>(rt, access_token, listing_id, filePath, i, maxRetries, attempt, w).
                  maxRetries - attempt)") auto

declare uploadImageWithRetry_from.simps [simp del]

definition uploadImageWithRetry ::
  "env \<Rightarrow> jsval \<Rightarrow> jsval \<Rightarrow> jsval \<Rightarrow> nat \<Rightarrow> nat \<Rightarrow> world \<Rightarrow> upload_result \<times> world" where
  "uploadImageWithRetry rt access_token listing_id filePath i maxRetries w =
     uploadImageWithRetry_from rt access_token listing_id filePath i maxRetries 0 w"

text \<open>
  The sequential loop over \<open>image_files\<close> from index \<open>i\<close> on, with the ids pushed so far;
  \<open>if (imageId) uploadedImageIds.push(imageId)\<close>.
\<close>

fun upload_all ::
  "env \<Rightarrow> jsval \<Rightarrow> jsval \<Rightarrow> jsval list \<Rightarrow> nat \<Rightarrow> string list \<Rightarrow> world
   \<Rightarrow> (exn + string list) \<times> world" where
  "upload_all rt access_token listing_id [] i uploadedImageIds w = (Inr uploadedImageIds, w)"
| "upload_all rt access_token listing_id (filePath # rest) i uploadedImageIds w =
     (case uploadImageWithRetry rt access_token listing_id filePath i 3 w of
        (Throws e, w1) \<Rightarrow> (Inl e, w1)
      | (Null, w1) \<Rightarrow> upload_all rt access_token listing_id rest (i + 1) uploadedImageIds w1
      | (ImageId image_id, w1) \<Rightarrow>
          upload_all rt access_token listing_id rest (i + 1)
            (if image_id \<noteq> [] then uploadedImageIds @ [image_id] else uploadedImageIds) w1)"

text \<open>
  The image block: entered for a non-empty array when the draft has a listing id and
  \<open>SHOP_ID\<close> is set. \<open>listing.listing_id\<close> throws when the draft response had no body.
\<close>

definition upload_images ::
  "env \<Rightarrow> jsval \<Rightarrow> jsval \<Rightarrow> jsval \<Rightarrow> world \<Rightarrow> (exn + string list) \<times> world" where
  "upload_images rt access_token listing image_files w =
     (case image_files of
        JArr (filePath # rest) \<Rightarrow>
          (if nullish listing then (Inl property_of_nullish, w)
           else if truthy (member_of listing ''listing_id'') \<and> present (SHOP_ID rt) then
             upload_all rt access_token (member_of listing ''listing_id'') (filePath # rest) 0 [] w
           else (Inr [], w))
      | _ \<Rightarrow> (Inr [], w))"

section \<open>Listing creation: inventory and video\<close>

text \<open>\<open>err.response?.data || err.message\<close>\<close>

definition err_payload :: "exn \<Rightarrow> jsval" where
  "err_payload e =
     (case exn_response e of
        Some r \<Rightarrow> js_or (data r) (JStr (exn_message e))
      | None \<Rightarrow> JStr (exn_message e))"

fun is_array :: "jsval \<Rightarrow> bool" where
  "is_array (JArr xs) = True"
| "is_array v = False"

text \<open>Gives \<open>inventoryUpdateResult\<close>, \<open>videoUploadResult\<close> and the state.\<close>

definition update_inventory ::
  "env \<Rightarrow> jsval \<Rightarrow> jsval \<Rightarrow> (string \<Rightarrow> jsval) \<Rightarrow> world \<Rightarrow> jsval \<times> jsval \<times> world" where
  "update_inventory rt access_token listing g w =
     (if truthy (member_of listing ''listing_id'')
         \<and> (truthy (g ''sku'') \<or> truthy (g ''inventory'')) then
        (let productsArr =
               (if truthy (g ''inventory'') \<and> is_array (member_of (g ''inventory'') ''products'')
                then member_of (g ''inventory'') ''products''
                else if truthy (g ''sku'')
                then JArr [sku_offering (JNum (js_Number rt (g ''sku''))) g]
                else JArr [])
         in case http rt w (PutInventory access_token (member_of listing ''listing_id'')
                              (JObj [(''products'', productsArr)])) of
              (Rejected err, w1) \<Rightarrow> (JNull, JNull, w1)
            | (Resolved resp, w1) \<Rightarrow>
                (if video_present rt then
                   (case http rt w1 (PostVideo access_token (member_of listing ''listing_id'')) of
                      (Resolved vresp, w2) \<Rightarrow> (data resp, data vresp, w2)
                    | (Rejected verr, w2) \<Rightarrow>
                        (data resp, JObj [(''error'', err_payload (AxiosError verr))], w2))
                 else (data resp, JNull, w1)))
      else (JNull, JNull, w))"

section \<open>Listing creation: the handler\<close>

text \<open>The outer \<open>catch\<close>: the status and body of the upstream response, or 500 and the message.\<close>

definition relay_error :: "exn \<Rightarrow> reply" where
  "relay_error e =
     Reply (case exn_response e of
              Some r \<Rightarrow> if status r \<noteq> 0 then status r else 500
            | None \<Rightarrow> 500)
           (Json (JObj [(''error'', err_payload e)]))"

definition listing_try ::
  "env \<Rightarrow> world \<Rightarrow> jsval \<Rightarrow> (string \<Rightarrow> jsval) \<Rightarrow> world \<times> (exn + reply)" where
  "listing_try rt w access_token g =
     (case http rt w (CreateListing access_token (build_payload g)) of
        (Rejected err, w1) \<Rightarrow> (w1, Inl (AxiosError err))
      | (Resolved resp, w1) \<Rightarrow>
          (let listing = data resp in
           case local_op rt w1 MkdirTmp of
             (Some e, w1') \<Rightarrow> (w1', Inl e)
           | (None, w1') \<Rightarrow>
               (case upload_images rt access_token listing (g ''image_files'') w1' of
                  (Inl e, w2) \<Rightarrow> (w2, Inl e)
                | (Inr uploadedImageIds, w2) \<Rightarrow>
                    (if nullish listing then (w2, Inl property_of_nullish)
                     else
                       (case update_inventory rt access_token listing g w2 of
                          (inventoryUpdateResult, videoUploadResult, w3) \<Rightarrow>
                            (w3, Inr (Reply 200 (Json (JObj
                               [(''ok'', JBool True),
                                (''listing'', listing),
                                (''listing_images_id'', JArr (map JStr uploadedImageIds)),
                                (''inventory'', inventoryUpdateResult),
                                (''video'', videoUploadResult)])))))))))"

definition post_listings :: "env \<Rightarrow> world \<Rightarrow> jsval \<Rightarrow> world \<times> outcome" where
  "post_listings rt w req_body =
     (case getValidAccessToken rt w of
        (Thrown e, w1) \<Rightarrow> (w1, Unhandled e)
      | (NoToken r, w1) \<Rightarrow> (w1, case r of Some rep \<Rightarrow> Sent rep | None \<Rightarrow> NoReply)
      | (Token access_token, w1) \<Rightarrow>
          (if \<not> truthy access_token then (w1, NoReply)
           else
             (let g = member_of (js_or req_body (JObj []));
                  errors = validate rt g
              in if errors \<noteq> [] then (w1, Sent (validation_reply errors))
                 else
                   (case listing_try rt w1 access_token g of
                      (w2, Inr rep) \<Rightarrow> (w2, Sent rep)
                    | (w2, Inl e) \<Rightarrow> (w2, Sent (relay_error e))))))"

section \<open>Observations on the image loop\<close>

text \<open>
  The upload requests among a list of calls, each as the source entry and the rank it was
  sent with.
\<close>

fun uploads_of :: "call list \<Rightarrow> (jsval \<times> string) list" where
  "uploads_of [] = []"
| "uploads_of (UploadImage access_token listing_id filePath rank # cs) =
     (filePath, rank) # uploads_of cs"
| "uploads_of (c # cs) = uploads_of cs"

text \<open>
  The uploads among a list of calls that the upstream accepted, given the calls made
  before them: an upload request is accepted when the upstream answers it with a response
  that carries a \<open>listing_image_id\<close>. Each is given as the source entry and that id as a
  string.
\<close>

fun accepted :: "env \<Rightarrow> call list \<Rightarrow> call list \<Rightarrow> (jsval \<times> string) list" where
  "accepted rt hist [] = []"
| "accepted rt hist (c # cs) =
     (case c of
        UploadImage access_token listing_id filePath rank \<Rightarrow>
          (case upstream rt hist c of
             Resolved resp \<Rightarrow>
               if truthy (data resp) \<and> truthy (member_of (data resp) ''listing_image_id'')
               then [(filePath, js_String rt (member_of (data resp) ''listing_image_id''))]
               else []
           | Rejected err \<Rightarrow> [])
      | _ \<Rightarrow> [])
     @ accepted rt (hist @ [c]) cs"







section \<open>Sample environments and states\<close>

definition sample_store :: jsval where
  "sample_store =
     JObj [(''etsy'', JObj [(''access_token'', JStr ''token-1''),
                            (''refresh_token'', JStr ''refresh-1'')])]"

definition sample_tokens :: jsval where
  "sample_tokens =
     JObj [(''access_token'', JStr ''token-2''), (''refresh_token'', JStr ''refresh-2'')]"

definition blank_trim :: "string \<Rightarrow> string" where
  "blank_trim s =
     rev (dropWhile (\<lambda>c. c = CHR '' '') (rev (dropWhile (\<lambda>c. c = CHR '' '') s)))"

definition access_only_store :: jsval where
  "access_only_store = JObj [(''etsy'', JObj [(''access_token'', JStr ''token-1'')])]"

definition refreshed_store :: jsval where
  "refreshed_store = JObj [(''etsy'', sample_tokens)]"

definition sample_texts :: "(string \<times> jsval) list" where
  "sample_texts =
     [(''{store}'', sample_store), (''{access-only}'', access_only_store),
      (''{refreshed}'', refreshed_store)]"

definition sample_env :: "(call list \<Rightarrow> call \<Rightarrow> axios_result) \<Rightarrow> env" where
  "sample_env up =
     \<lparr>ToNumber = (\<lambda>v. NaN),
      ToString = (\<lambda>v. ''[object Object]''),
      str_trim = blank_trim,
      JSON_parse = (\<lambda>s. case map_of sample_texts s of
                            Some v \<Rightarrow> Inr v
                          | None \<Rightarrow> Inl (SyntaxError ''Unexpected token'')),
      JSON_stringify = (\<lambda>v. case map_of (map prod.swap sample_texts) v of
                                Some s \<Rightarrow> s
                              | None \<Rightarrow> ''{other}''),
      SHOP_ID = Some ''777'',
      video_present = False,
      upstream = up,
      fs_fault = (\<lambda>hist ops op. None)\<rparr>"


text \<open>The same environment where the removal of a temporary file always fails.\<close>

definition unlink_fails :: "env \<Rightarrow> env" where
  "unlink_fails rt =
     rt\<lparr>fs_fault := (\<lambda>hist ops op. case op of
                                       UnlinkTemp filePath \<Rightarrow> Some ''EPERM: operation not permitted''
                                     | _ \<Rightarrow> None)\<rparr>"

definition network_down :: "call list \<Rightarrow> call \<Rightarrow> axios_result" where
  "network_down hist c = Rejected \<lparr>response = None, message = ''connect ECONNREFUSED''\<rparr>"

definition answers :: "jsval \<Rightarrow> call list \<Rightarrow> call \<Rightarrow> axios_result" where
  "answers d hist c = Resolved \<lparr>status = 200, data = d\<rparr>"

definition refuses :: "nat \<Rightarrow> jsval \<Rightarrow> call list \<Rightarrow> call \<Rightarrow> axios_result" where
  "refuses code d hist c =
     Rejected \<lparr>response = Some \<lparr>status = code, data = d\<rparr>,
               message = ''Request failed''\<rparr>"





definition remote_image :: jsval where
  "remote_image = JStr ''https://cdn.example/a.jpg''"

definition local_image :: jsval where
  "local_image = JStr ''photos/b.jpg''"

definition rejected_image :: jsval where
  "rejected_image = JStr ''photos/bad.jpg''"

definition third_image :: jsval where
  "third_image = JStr ''photos/c.jpg''"

text \<open>
  An upstream that accepts the uploads of every image but two: it refuses
  \<open>rejected_image\<close> for good, and it answers the first upload request for \<open>third_image\<close>
  with the transient error and accepts the next.
\<close>

definition images_mixed :: "call list \<Rightarrow> call \<Rightarrow> axios_result" where
  "images_mixed hist c =
     (case c of
        UploadImage access_token listing_id filePath rank \<Rightarrow>
          (if filePath = rejected_image then
             Rejected \<lparr>response = Some \<lparr>status = 400,
                                         data = JObj [(''error'', JStr ''Invalid image'')]\<rparr>,
                       message = ''Request failed with status code 400''\<rparr>
           else if filePath = third_image \<and> (third_image, rank) \<notin> set (uploads_of hist) then
             Rejected \<lparr>response = Some \<lparr>status = 409,
                         data = JObj [(''error'',
                                  JStr ''The listing is being edited by another process'')]\<rparr>,
                       message = ''Request failed with status code 409''\<rparr>
           else Resolved \<lparr>status = 201,
                          data = JObj [(''listing_image_id'', JStr (''img-'' @ rank))]\<rparr>)
      | _ \<Rightarrow> Resolved \<lparr>status = 200, data = JObj [(''listing_id'', JNum (Fin 42))]\<rparr>)"


definition empty_world :: world where
  "empty_world = \<lparr>token_file = NoFile, pkceStore = Map.empty, calls = [], fs_log = []\<rparr>"

definition logged_in_world :: world where
  "logged_in_world = \<lparr>token_file = FileText ''{store}'', pkceStore = Map.empty, calls = [], fs_log = []\<rparr>"

definition pending_login_world :: world where
  "pending_login_world =
     \<lparr>token_file = NoFile,
      pkceStore = [''5f3a9c0d1e2b4a67'' \<mapsto> \<lparr>code_verifier = ''verifier-1'', createdAt = 1\<rparr>],
      calls = [], fs_log = []\<rparr>"

definition callback_of :: "string \<Rightarrow> string \<Rightarrow> callback_query" where
  "callback_of code state =
     \<lparr>q_code = Some code, q_state = Some state, q_error = None, q_error_description = None\<rparr>"

definition sample_fields :: "(string \<times> jsval) list" where
  "sample_fields =
     [(''title'', JStr ''Mug''), (''description'', JStr ''A mug''),
      (''price'', JNum (Fin 10)), (''quantity'', JNum (Fin 1)),
      (''who_made'', JStr ''i_did''), (''when_made'', JStr ''2020_2024''),
      (''sku'', JStr ''SKU-1''), (''taxonomy_id'', JNum (Fin 1))]"

definition sample_listing :: jsval where
  "sample_listing = JObj sample_fields"


definition weighted_fields :: "string \<Rightarrow> (string \<times> jsval) list" where
  "weighted_fields t = sample_fields @ [(''type'', JStr t), (''item_weight'', JNum (Fin (- 1)))]"

definition draft_refused :: "call list \<Rightarrow> call \<Rightarrow> axios_result" where
  "draft_refused hist c =
     (case c of
        CreateListing access_token payload \<Rightarrow>
          Rejected \<lparr>response = Some \<lparr>status = 422,
                                      data = JObj [(''error'', JStr ''Invalid taxonomy'')]\<rparr>,
                    message = ''Request failed with status code 422''\<rparr>
      | _ \<Rightarrow> Resolved \<lparr>status = 200, data = JObj []\<rparr>)"

section \<open>Properties of the token storage\<close>

lemma readTokens_cases:
  "readTokens rt f =
     Inr (case f of
            NoFile \<Rightarrow> JObj []
          | Unreadable \<Rightarrow> JObj []
          | FileText s \<Rightarrow> (case JSON_parse rt s of Inl e \<Rightarrow> JObj [] | Inr v \<Rightarrow> v))"
  by (simp add: readTokens_def existsSync_def readFileSync_def try_catch_def
      split: file_state.splits sum.splits)

text \<open>
  C9. \<open>readTokens\<close> never throws: in every state of the token file, and whatever
  \<open>JSON.parse\<close> does, it returns a value. That value is the parsed JSON when the file holds
  text that parses, and the empty object when the file is missing, when reading it fails
  and when its text does not parse.
\<close>

theorem readTokens_total:
  "(\<exists>v. readTokens rt f = Inr v)
   \<and> readTokens rt NoFile = Inr (JObj [])
   \<and> readTokens rt Unreadable = Inr (JObj [])
   \<and> readTokens rt (FileText s) =
       Inr (case JSON_parse rt s of Inl e \<Rightarrow> JObj [] | Inr v \<Rightarrow> v)"
  by (simp add: readTokens_def existsSync_def readFileSync_def try_catch_def
      split: file_state.splits sum.splits)


section \<open>Properties of the OAuth callback\<close>

lemma saveTokens_keeps:
  "saveTokens rt obj w = (x, w') \<Longrightarrow> calls w' = calls w \<and> pkceStore w' = pkceStore w"
  by (auto simp add: saveTokens_def local_op_def split: option.splits)

lemma callback_try_calls:
  "calls (fst (callback_try rt w code v)) = calls w @ [TokenExchange code v]"
  by (auto simp add: callback_try_def http_def Let_def dest!: saveTokens_keeps
      split: axios_result.splits sum.splits option.splits prod.splits)

lemma callback_try_pkce:
  "pkceStore (fst (callback_try rt w code v)) = pkceStore w"
  by (auto simp add: callback_try_def http_def Let_def dest!: saveTokens_keeps
      split: axios_result.splits sum.splits option.splits prod.splits)

lemma auth_callback_found:
  assumes "\<not> present (q_error q)" and "present (q_code q)" and "present (q_state q)"
    and "pkce_get (pkceStore w) (qstr (q_state q)) \<noteq> Absent"
  shows "fst (auth_callback rt w q) =
           fst (callback_try rt (w\<lparr>pkceStore := (pkceStore w)(qstr (q_state q) := None)\<rparr>)
                  (qstr (q_code q)) (entry_verifier (pkce_get (pkceStore w) (qstr (q_state q)))))"
  using assms by (simp add: auth_callback_def Let_def split: prod.splits sum.splits)

text \<open>
  A state that was never stored and that does not name a property of \<open>Object.prototype\<close>
  is turned away with 400, and nothing is sent upstream.
\<close>

lemma auth_callback_unknown_state:
  assumes "\<not> present (q_error q)" and "present (q_code q)" and "present (q_state q)"
    and "pkceStore w (qstr (q_state q)) = None"
    and "qstr (q_state q) \<notin> set object_prototype_keys"
  shows "auth_callback rt w q =
           (w, Sent (Reply 400
              (Text ''Missing PKCE verifier for this state. Try logging in again.'')))"
  using assms by (simp add: auth_callback_def pkce_get_def)

text \<open>
  C4. The claim is that a callback whose state is not in the PKCE map is rejected with 400
  and that no token exchange is attempted. The lookup \<open>pkceStore[state]\<close> reads through
  the prototype of the object: with an empty map, the request
  \<open>/auth/callback?code=abc&state=constructor\<close> finds \<open>Object.prototype.constructor\<close>, passes
  the \<open>if (!entry)\<close> test, and the token endpoint is called with an undefined verifier;
  when that call fails the reply is 500.
\<close>

theorem callback_inherited_state:
  "pkceStore empty_world ''constructor'' = None
   \<and> auth_callback (sample_env network_down) empty_world (callback_of ''abc'' ''constructor'')
     = (empty_world\<lparr>calls := [TokenExchange ''abc'' JUndefined]\<rparr>,
        Sent (Reply 500 (Text ''Token exchange failed. Check server logs for details.'')))"
  by (simp add: auth_callback_def pkce_get_def object_prototype_keys_def empty_world_def
      callback_of_def present_def qstr_def callback_try_def http_def sample_env_def
      network_down_def)

theorem callback_inherited_state_witness:
  "calls (fst (auth_callback (sample_env network_down) empty_world
                 (callback_of ''abc'' ''constructor'')))
     = [TokenExchange ''abc'' JUndefined]
   \<and> snd (auth_callback (sample_env network_down) empty_world
            (callback_of ''abc'' ''constructor''))
     \<noteq> Sent (Reply 400 (Text ''Missing PKCE verifier for this state. Try logging in again.''))"
  using callback_inherited_state by simp

text \<open>
  C5, as the claim states it: the entry of a known state would stay in the map when the
  token exchange fails. Here the exchange fails (the network is down), the reply is 500,
  and the entry is gone.
\<close>

theorem callback_failed_exchange_counterexample:
  "pkceStore pending_login_world ''5f3a9c0d1e2b4a67'' \<noteq> None
   \<and> snd (auth_callback (sample_env network_down) pending_login_world
            (callback_of ''abc'' ''5f3a9c0d1e2b4a67''))
     = Sent (Reply 500 (Text ''Token exchange failed. Check server logs for details.''))
   \<and> pkceStore (fst (auth_callback (sample_env network_down) pending_login_world
            (callback_of ''abc'' ''5f3a9c0d1e2b4a67''))) ''5f3a9c0d1e2b4a67'' = None"
  by (simp add: auth_callback_def pkce_get_def pending_login_world_def
      callback_of_def present_def qstr_def callback_try_def http_def sample_env_def
      network_down_def)

text \<open>
  What a callback does to the PKCE map, in every case: it removes the entry of its own
  state when it gets as far as the token exchange, and nothing else.
\<close>

lemma auth_callback_pkce:
  "pkceStore (fst (auth_callback rt w q)) =
     (if \<not> present (q_error q) \<and> present (q_code q) \<and> present (q_state q)
         \<and> pkce_get (pkceStore w) (qstr (q_state q)) \<noteq> Absent
      then (pkceStore w)(qstr (q_state q) := None)
      else pkceStore w)"
proof (cases "\<not> present (q_error q) \<and> present (q_code q) \<and> present (q_state q)
         \<and> pkce_get (pkceStore w) (qstr (q_state q)) \<noteq> Absent")
  case True
  then have "fst (auth_callback rt w q) =
           fst (callback_try rt (w\<lparr>pkceStore := (pkceStore w)(qstr (q_state q) := None)\<rparr>)
                  (qstr (q_code q)) (entry_verifier (pkce_get (pkceStore w) (qstr (q_state q)))))"
    using auth_callback_found [of q w rt] by simp
  then show ?thesis
    using True by (simp add: callback_try_pkce)
next
  case False
  then have "fst (auth_callback rt w q) = w"
    by (auto simp add: auth_callback_def Let_def)
  then show ?thesis
    using False by auto
qed

text \<open>
  C5, amended. A callback without an error parameter, with a code and with a state that is
  in the map deletes the entry of that state before the token exchange is attempted, so
  the entry is gone whether the exchange succeeds or fails, and the exchange is sent with
  the stored verifier. No callback, whatever its parameters and whatever the map holds,
  changes the entry of a state other than its own; a callback whose state has no entry in
  the map (an unknown state, or one that names a property of \<open>Object.prototype\<close>) leaves
  the whole map as it was; and a callback that is turned away before the lookup (an error
  parameter, a missing code or state) leaves the whole state as it was.
\<close>

theorem callback_consumes_entry:
  "(\<not> present (q_error q) \<and> present (q_code q) \<and> q_state q = Some s \<and> s \<noteq> []
      \<and> pkceStore w s = Some e
    \<longrightarrow> pkceStore (fst (auth_callback rt w q)) s = None
        \<and> calls (fst (auth_callback rt w q))
          = calls w @ [TokenExchange (qstr (q_code q)) (JStr (code_verifier e))])
   \<and> (\<forall>s'. s' \<noteq> qstr (q_state q)
          \<longrightarrow> pkceStore (fst (auth_callback rt w q)) s' = pkceStore w s')
   \<and> (pkceStore w (qstr (q_state q)) = None
      \<longrightarrow> pkceStore (fst (auth_callback rt w q)) = pkceStore w)
   \<and> (present (q_error q) \<or> \<not> present (q_code q) \<or> \<not> present (q_state q)
      \<longrightarrow> fst (auth_callback rt w q) = w)"
proof (intro conjI impI allI)
  assume h: "\<not> present (q_error q) \<and> present (q_code q) \<and> q_state q = Some s \<and> s \<noteq> []
      \<and> pkceStore w s = Some e"
  then have st: "present (q_state q)" "qstr (q_state q) = s"
    by (simp_all add: present_def qstr_def)
  from h have found: "pkce_get (pkceStore w) s = Own e"
    by (simp add: pkce_get_def)
  have eq: "fst (auth_callback rt w q) =
           fst (callback_try rt (w\<lparr>pkceStore := (pkceStore w)(s := None)\<rparr>)
                  (qstr (q_code q)) (JStr (code_verifier e)))"
    using auth_callback_found [of q w rt] h st found by simp
  show "pkceStore (fst (auth_callback rt w q)) s = None"
    by (simp add: eq callback_try_pkce)
  show "calls (fst (auth_callback rt w q))
          = calls w @ [TokenExchange (qstr (q_code q)) (JStr (code_verifier e))]"
    by (simp add: eq callback_try_calls)
next
  fix s'
  assume "s' \<noteq> qstr (q_state q)"
  then show "pkceStore (fst (auth_callback rt w q)) s' = pkceStore w s'"
    by (simp add: auth_callback_pkce)
next
  assume "pkceStore w (qstr (q_state q)) = None"
  then show "pkceStore (fst (auth_callback rt w q)) = pkceStore w"
    by (auto simp add: auth_callback_pkce)
next
  assume "present (q_error q) \<or> \<not> present (q_code q) \<or> \<not> present (q_state q)"
  then show "fst (auth_callback rt w q) = w"
    by (auto simp add: auth_callback_def)
qed

theorem callback_consumes_entry_witness:
  "pkceStore (fst (auth_callback (sample_env (answers sample_tokens)) pending_login_world
                    (callback_of ''abc'' ''5f3a9c0d1e2b4a67''))) ''5f3a9c0d1e2b4a67'' = None
   \<and> calls (fst (auth_callback (sample_env (answers sample_tokens)) pending_login_world
                    (callback_of ''abc'' ''5f3a9c0d1e2b4a67'')))
       = [TokenExchange ''abc'' (JStr ''verifier-1'')]
   \<and> pkceStore (fst (auth_callback (sample_env (answers sample_tokens)) pending_login_world
                    (callback_of ''abc'' ''constructor''))) ''5f3a9c0d1e2b4a67''
       = Some \<lparr>code_verifier = ''verifier-1'', createdAt = 1\<rparr>
   \<and> pkceStore (fst (auth_callback (sample_env (answers sample_tokens)) pending_login_world
                    (callback_of ''abc'' ''0000000000000000'')))
       = pkceStore pending_login_world
   \<and> fst (auth_callback (sample_env (answers sample_tokens)) pending_login_world
            (callback_of ''abc'' [])) = pending_login_world"
  using callback_consumes_entry [of "callback_of ''abc'' ''5f3a9c0d1e2b4a67''"
      "''5f3a9c0d1e2b4a67''" pending_login_world
      "\<lparr>code_verifier = ''verifier-1'', createdAt = 1\<rparr>" "sample_env (answers sample_tokens)"]
    callback_consumes_entry [of "callback_of ''abc'' ''constructor''" "[]" pending_login_world
      "\<lparr>code_verifier = ''verifier-1'', createdAt = 1\<rparr>" "sample_env (answers sample_tokens)"]
    callback_consumes_entry [of "callback_of ''abc'' ''0000000000000000''" "[]"
      pending_login_world
      "\<lparr>code_verifier = ''verifier-1'', createdAt = 1\<rparr>" "sample_env (answers sample_tokens)"]
    callback_consumes_entry [of "callback_of ''abc'' []" "[]" pending_login_world
      "\<lparr>code_verifier = ''verifier-1'', createdAt = 1\<rparr>" "sample_env (answers sample_tokens)"]
  by (simp add: callback_of_def present_def qstr_def pending_login_world_def)

section \<open>Properties of the listing validation\<close>

lemma in_check [simp]: "(m' \<in> set (check c m)) = (c \<and> m' = m)"
  by (auto simp add: check_def)

lemma check_True: "c \<Longrightarrow> check c m = [m]"
  by (simp add: check_def)

lemma post_listings_token:
  assumes "getValidAccessToken rt w = (Token access_token, w1)" and "truthy access_token"
  shows "post_listings rt w b =
           (if validate rt (member_of (js_or b (JObj []))) \<noteq> []
            then (w1, Sent (validation_reply (validate rt (member_of (js_or b (JObj []))))))
            else (case listing_try rt w1 access_token (member_of (js_or b (JObj []))) of
                    (w2, Inr rep) \<Rightarrow> (w2, Sent rep)
                  | (w2, Inl e) \<Rightarrow> (w2, Sent (relay_error e))))"
  using assms by (simp add: post_listings_def Let_def)

lemma validate_title_description:
  assumes "missing_text rt (g ''title'')" and "missing_text rt (g ''description'')"
    and "\<not> missing_text rt t" and "\<not> missing_text rt d"
  shows "validate rt g =
           ''title is required'' # ''description is required''
           # validate rt (g(''title'' := t, ''description'' := d))"
  using assms by (simp add: validate_def check_True) (simp add: check_def)

lemma when_made_message:
  "(''Invalid when_made value'' \<in> set (validate rt g))
     = (\<not> truthy (g ''when_made'') \<or> \<not> one_of when_made_values (g ''when_made''))"
  by (simp add: validate_def)

lemma item_weight_message:
  "(''item_weight must be a positive number if set'' \<in> set (validate rt g))
     = (g ''type'' = JStr ''physical'' \<and> g ''item_weight'' \<noteq> JUndefined
        \<and> \<not> validPositiveNumber (g ''item_weight''))"
  by (simp add: validate_def)

lemma validate_item_weight_indep:
  "g ''type'' \<noteq> JStr ''physical'' \<Longrightarrow> validate rt (g(''item_weight'' := v)) = validate rt g"
  by (simp add: validate_def)

lemma payload_fields_item_weight:
  "map (\<lambda>k. (k, if k = ''item_weight'' then v else g k)) payload_fields
     = map (\<lambda>k. (k, g k)) payload_fields"
  by (simp add: payload_fields_def)

lemma build_payload_item_weight_indep:
  "g ''type'' \<noteq> JStr ''physical'' \<Longrightarrow> build_payload (g(''item_weight'' := v)) = build_payload g"
  by (simp add: build_payload_def payload_fields_item_weight sku_offering_def)

lemma update_inventory_item_weight_indep:
  "update_inventory rt a l (g(''item_weight'' := v)) w = update_inventory rt a l g w"
  by (simp add: update_inventory_def sku_offering_def Let_def)

lemma listing_try_item_weight_indep:
  "g ''type'' \<noteq> JStr ''physical'' \<Longrightarrow>
     listing_try rt w a (g(''item_weight'' := v)) = listing_try rt w a g"
  by (simp add: listing_try_def build_payload_item_weight_indep
      update_inventory_item_weight_indep Let_def
      split: prod.splits axios_result.splits sum.splits)

lemma member_of_delete:
  "member_of (JObj (AList.delete k ps)) = (member_of (JObj ps))(k := JUndefined)"
  by (rule ext) (simp add: AList.delete_conv')

lemma post_listings_item_weight_indep:
  assumes "member_of (JObj ps) ''type'' \<noteq> JStr ''physical''"
  shows "post_listings rt w (JObj (AList.delete ''item_weight'' ps)) = post_listings rt w (JObj ps)"
proof -
  let ?g = "member_of (JObj ps)"
  have g: "member_of (js_or (JObj (AList.delete ''item_weight'' ps)) (JObj []))
             = ?g(''item_weight'' := JUndefined)"
    by (simp only: js_or_def truthy.simps if_True member_of_delete)
  have g': "member_of (js_or (JObj ps) (JObj [])) = ?g"
    by (simp only: js_or_def truthy.simps if_True)
  show ?thesis
    unfolding post_listings_def g g' Let_def
    by (simp only: validate_item_weight_indep [of ?g, OF assms]
        listing_try_item_weight_indep [of ?g, OF assms])
qed

subsection \<open>The sample state\<close>

lemma readTokens_sample: "readTokens (sample_env up) (FileText ''{store}'') = Inr sample_store"
  by (simp add: readTokens_cases sample_env_def sample_texts_def)

lemma sample_stored_token:
  "getAccessTokenOr401 (sample_env up) logged_in_world = Token (JStr ''token-1'')"
  by (simp add: getAccessTokenOr401_def readTokens_sample logged_in_world_def
      stored_token_def opt_chain_def nullish_def sample_store_def)

lemma http_answers:
  "http (sample_env (answers d)) w c = (Resolved \<lparr>status = 200, data = d\<rparr>, w\<lparr>calls := calls w @ [c]\<rparr>)"
  by (simp add: http_def sample_env_def answers_def)

lemma sample_token_ok:
  "getValidAccessToken (sample_env (answers d)) logged_in_world
     = (Token (JStr ''token-1''), logged_in_world\<lparr>calls := [GetUsersMe (JStr ''token-1'')]\<rparr>)"
  by (simp add: getValidAccessToken_def sample_stored_token http_answers)
     (simp add: logged_in_world_def)

lemma validate_sample: "validate (sample_env up) (member_of sample_listing) = []"
  by (simp add: validate_def sample_listing_def sample_fields_def check_def missing_text_def sample_env_def
      blank_trim_def js_Number_def isNaN_def one_of_def when_made_values_def)

lemma validate_empty:
  "validate (sample_env up) (member_of (JObj [])) =
     [''title is required'', ''description is required'', ''price must be a positive number'',
      ''quantity must be a positive integer'',
      ''who_made must be one of: i_did, someone_else, collective'',
      ''Invalid when_made value'', ''Sku required'', ''taxonomy_id must be a positive integer'']"
  by (simp add: validate_def check_def missing_text_def js_Number_def isNaN_def one_of_def)

subsection \<open>Title and description\<close>

text \<open>
  A field that is absent, empty or not a string fails the test the code makes on the title
  and on the description.
\<close>

lemma missing_text_cases:
  "v = JUndefined \<or> v = JStr [] \<or> (\<forall>s. v \<noteq> JStr s) \<Longrightarrow> missing_text rt v"
  by (cases v) (auto simp add: missing_text_def)

text \<open>
  C3, amended. For every \<open>POST /listings\<close> request for which \<open>getValidAccessToken\<close> gives an
  access token and whose title and description are both missing (absent, empty, blank or
  not a string), the reply has status 400 and its \<open>errors\<close> array is the whole result of the
  validation: it starts with \<open>title is required\<close> and \<open>description is required\<close>, and goes
  on with exactly the violations that the same request with a good title and description
  would get.
\<close>

theorem missing_title_and_description:
  assumes "getValidAccessToken rt w = (Token access_token, w1)" and "truthy access_token"
    and "missing_text rt (member_of (js_or b (JObj [])) ''title'')"
    and "missing_text rt (member_of (js_or b (JObj [])) ''description'')"
    and "\<not> missing_text rt t" and "\<not> missing_text rt d"
  shows "post_listings rt w b =
           (w1, Sent (Reply 400 (Json (JObj
              [(''errors'', JArr (map JStr (validate rt (member_of (js_or b (JObj []))))))]))))
         \<and> validate rt (member_of (js_or b (JObj []))) =
             ''title is required'' # ''description is required''
             # validate rt ((member_of (js_or b (JObj [])))(''title'' := t, ''description'' := d))"
proof -
  let ?g = "member_of (js_or b (JObj []))"
  have v: "validate rt ?g = ''title is required'' # ''description is required''
             # validate rt (?g(''title'' := t, ''description'' := d))"
    using assms(3-6) by (rule validate_title_description)
  then have "validate rt ?g \<noteq> []" by simp
  then have "post_listings rt w b = (w1, Sent (validation_reply (validate rt ?g)))"
    using post_listings_token [OF assms(1,2), of b] by simp
  with v show ?thesis by (simp add: validation_reply_def)
qed

theorem missing_title_and_description_witness:
  "post_listings (sample_env (answers JNull)) logged_in_world (JObj []) =
     (logged_in_world\<lparr>calls := [GetUsersMe (JStr ''token-1'')]\<rparr>,
      Sent (Reply 400 (Json (JObj [(''errors'', JArr (map JStr
        [''title is required'', ''description is required'',
         ''price must be a positive number'', ''quantity must be a positive integer'',
         ''who_made must be one of: i_did, someone_else, collective'',
         ''Invalid when_made value'', ''Sku required'',
         ''taxonomy_id must be a positive integer'']))]))))"
proof -
  let ?rt = "sample_env (answers JNull)"
  have g: "member_of (js_or (JObj []) (JObj [])) = member_of (JObj [])"
    by (simp add: js_or_def)
  have t: "truthy (JStr ''token-1'')" by simp
  have m: "missing_text ?rt (member_of (js_or (JObj []) (JObj [])) k)" for k
    by (simp add: g missing_text_def)
  have n: "\<not> missing_text ?rt (JStr ''Mug'')"
    by (simp add: missing_text_def sample_env_def blank_trim_def)
  from missing_title_and_description [OF sample_token_ok t m m n n]
  have "post_listings ?rt logged_in_world (JObj []) =
          (logged_in_world\<lparr>calls := [GetUsersMe (JStr ''token-1'')]\<rparr>,
           Sent (Reply 400 (Json (JObj
             [(''errors'', JArr (map JStr (validate ?rt (member_of (js_or (JObj []) (JObj []))))))]))))"
    by (rule conjunct1)
  then show ?thesis
    by (simp only: g validate_empty)
qed

text \<open>
  C3, as the claim states it, for every request: with no token stored, a body without
  title and description is answered 401 by the token check, before any validation.
\<close>

theorem missing_title_unauthenticated_counterexample:
  "member_of (js_or (JObj []) (JObj [])) ''title'' = JUndefined
   \<and> member_of (js_or (JObj []) (JObj [])) ''description'' = JUndefined
   \<and> post_listings (sample_env network_down) empty_world (JObj []) =
       (empty_world,
        Sent (Reply 401 (Text ''No access token available. Authenticate via /auth/login'')))"
  by (simp add: js_or_def post_listings_def getValidAccessToken_def getAccessTokenOr401_def
      readTokens_cases empty_world_def stored_token_def opt_chain_def nullish_def)


subsection \<open>Item weight and the listing type\<close>

text \<open>
  C6, amended. For every \<open>POST /listings\<close> request whose body defines \<open>item_weight\<close> with a
  value that is not a positive number: the validation produces
  \<open>item_weight must be a positive number if set\<close> if and only if \<open>type\<close> is \<open>"physical"\<close>; when
  it is, and \<open>getValidAccessToken\<close> gives an access token, the request is rejected with
  400 and the \<open>errors\<close> array; when \<open>type\<close> is absent or anything else, the request is
  handled exactly as the same request without \<open>item_weight\<close>.
\<close>

theorem item_weight_only_physical:
  assumes "getValidAccessToken rt w = (Token access_token, w1)" and "truthy access_token"
    and "member_of (JObj ps) ''item_weight'' \<noteq> JUndefined"
    and "\<not> validPositiveNumber (member_of (JObj ps) ''item_weight'')"
  shows "(''item_weight must be a positive number if set'' \<in> set (validate rt (member_of (JObj ps))))
           = (member_of (JObj ps) ''type'' = JStr ''physical'')
         \<and> (member_of (JObj ps) ''type'' = JStr ''physical'' \<longrightarrow>
              post_listings rt w (JObj ps) =
                (w1, Sent (Reply 400 (Json (JObj
                   [(''errors'', JArr (map JStr (validate rt (member_of (JObj ps)))))])))))
         \<and> (member_of (JObj ps) ''type'' \<noteq> JStr ''physical'' \<longrightarrow>
              post_listings rt w (JObj ps)
                = post_listings rt w (JObj (AList.delete ''item_weight'' ps)))"
proof (intro conjI impI)
  let ?g = "member_of (JObj ps)"
  show iff: "(''item_weight must be a positive number if set'' \<in> set (validate rt ?g))
           = (?g ''type'' = JStr ''physical'')"
    using assms(3,4) by (simp only: item_weight_message) simp
  have g: "member_of (js_or (JObj ps) (JObj [])) = ?g"
    by (simp only: js_or_def truthy.simps if_True)
  {
    assume "?g ''type'' = JStr ''physical''"
    with iff have "validate rt ?g \<noteq> []" by auto
    then show "post_listings rt w (JObj ps) =
                (w1, Sent (Reply 400 (Json (JObj
                   [(''errors'', JArr (map JStr (validate rt ?g)))]))))"
      using post_listings_token [OF assms(1,2), of "JObj ps"]
      by (simp add: g validation_reply_def)
  }
  {
    assume "?g ''type'' \<noteq> JStr ''physical''"
    then show "post_listings rt w (JObj ps)
                = post_listings rt w (JObj (AList.delete ''item_weight'' ps))"
      by (rule post_listings_item_weight_indep [symmetric])
  }
qed

lemma validate_weighted_physical:
  "validate (sample_env up) (member_of (JObj (weighted_fields ''physical''))) =
     [''item_weight must be a positive number if set'']"
  by (simp add: validate_def weighted_fields_def sample_fields_def check_def missing_text_def
      sample_env_def blank_trim_def js_Number_def isNaN_def one_of_def when_made_values_def)

theorem item_weight_only_physical_witness:
  "post_listings (sample_env (answers JNull)) logged_in_world
       (JObj (weighted_fields ''physical'')) =
     (logged_in_world\<lparr>calls := [GetUsersMe (JStr ''token-1'')]\<rparr>,
      Sent (Reply 400 (Json (JObj [(''errors'',
        JArr [JStr ''item_weight must be a positive number if set''])]))))
   \<and> post_listings (sample_env (answers JNull)) logged_in_world
       (JObj (sample_fields @ [(''type'', JStr ''download''), (''item_weight'', JNum (Fin (- 1)))]))
     = post_listings (sample_env (answers JNull)) logged_in_world
         (JObj (sample_fields @ [(''type'', JStr ''download'')]))"
proof -
  let ?rt = "sample_env (answers JNull)"
  have t: "truthy (JStr ''token-1'')" by simp
  have p: "member_of (JObj (weighted_fields k)) ''item_weight'' = JNum (Fin (- 1))"
          "member_of (JObj (weighted_fields k)) ''type'' = JStr k" for k
    by (simp_all add: weighted_fields_def sample_fields_def)
  have d: "AList.delete ''item_weight'' (weighted_fields ''download'')
             = sample_fields @ [(''type'', JStr ''download'')]"
    by (simp add: weighted_fields_def sample_fields_def AList.delete_eq)
  have a: "post_listings ?rt logged_in_world (JObj (weighted_fields ''physical'')) =
     (logged_in_world\<lparr>calls := [GetUsersMe (JStr ''token-1'')]\<rparr>,
      Sent (Reply 400 (Json (JObj [(''errors'', JArr (map JStr
         (validate ?rt (member_of (JObj (weighted_fields ''physical''))))))]))))"
    using item_weight_only_physical [OF sample_token_ok t, of "weighted_fields ''physical''" JNull]
    by (simp add: p del: member_of.simps)
  have b: "post_listings ?rt logged_in_world (JObj (weighted_fields ''download''))
     = post_listings ?rt logged_in_world (JObj (AList.delete ''item_weight'' (weighted_fields ''download'')))"
    using item_weight_only_physical [OF sample_token_ok t, of "weighted_fields ''download''" JNull]
    by (simp add: p del: member_of.simps)
  from a b show ?thesis
    by (simp only: validate_weighted_physical d) (simp add: weighted_fields_def)
qed

text \<open>
  C6, as the claim states it, for every request: with no token stored, a physical listing
  with \<open>item_weight\<close> \<open>-1\<close> is answered 401 and no validation error is produced.
\<close>

theorem item_weight_unauthenticated_counterexample:
  "member_of (JObj (weighted_fields ''physical'')) ''type'' = JStr ''physical''
   \<and> member_of (JObj (weighted_fields ''physical'')) ''item_weight'' = JNum (Fin (- 1))
   \<and> post_listings (sample_env network_down) empty_world (JObj (weighted_fields ''physical'')) =
       (empty_world,
        Sent (Reply 401 (Text ''No access token available. Authenticate via /auth/login'')))"
  by (simp add: weighted_fields_def sample_fields_def post_listings_def getValidAccessToken_def
      getAccessTokenOr401_def readTokens_cases empty_world_def stored_token_def opt_chain_def
      nullish_def)

subsection \<open>The enumeration of when_made\<close>

lemma one_of_truthy: "one_of when_made_values v \<Longrightarrow> truthy v"
  by (auto simp add: one_of_def when_made_values_def)

text \<open>
  C7, amended. The validation produces \<open>Invalid when_made value\<close> if and only if \<open>when_made\<close>
  is absent or not one of the nineteen accepted strings; and for every \<open>POST /listings\<close>
  request for which \<open>getValidAccessToken\<close> gives an access token and whose \<open>when_made\<close> is
  such a value, the reply has status 400 and carries the \<open>errors\<close> array of the validation.
\<close>

theorem when_made_enumeration:
  "((''Invalid when_made value'' \<in> set (validate rt (member_of (js_or b (JObj [])))))
      = (member_of (js_or b (JObj [])) ''when_made'' \<notin> JStr ` set
          [''made_to_order'', ''2020_2024'', ''2010_2019'', ''2006_2009'', ''before_2006'',
           ''2000_2005'', ''1990s'', ''1980s'', ''1970s'', ''1960s'', ''1950s'', ''1940s'',
           ''1930s'', ''1920s'', ''1910s'', ''1900s'', ''1800s'', ''1700s'', ''before_1700'']))
   \<and> (getValidAccessToken rt w = (Token access_token, w1) \<and> truthy access_token
       \<and> member_of (js_or b (JObj [])) ''when_made'' \<notin> JStr ` set
          [''made_to_order'', ''2020_2024'', ''2010_2019'', ''2006_2009'', ''before_2006'',
           ''2000_2005'', ''1990s'', ''1980s'', ''1970s'', ''1960s'', ''1950s'', ''1940s'',
           ''1930s'', ''1920s'', ''1910s'', ''1900s'', ''1800s'', ''1700s'', ''before_1700'']
      \<longrightarrow> post_listings rt w b =
            (w1, Sent (Reply 400 (Json (JObj
               [(''errors'', JArr (map JStr (validate rt (member_of (js_or b (JObj []))))))])))))"
proof -
  let ?g = "member_of (js_or b (JObj []))"
  let ?vals = "[''made_to_order'', ''2020_2024'', ''2010_2019'', ''2006_2009'', ''before_2006'',
           ''2000_2005'', ''1990s'', ''1980s'', ''1970s'', ''1960s'', ''1950s'', ''1940s'',
           ''1930s'', ''1920s'', ''1910s'', ''1900s'', ''1800s'', ''1700s'', ''before_1700'']"
  have "(\<not> truthy (?g ''when_made'') \<or> \<not> one_of when_made_values (?g ''when_made''))
          = (\<not> one_of when_made_values (?g ''when_made''))"
    using one_of_truthy by blast
  then have iff: "(''Invalid when_made value'' \<in> set (validate rt ?g))
      = (?g ''when_made'' \<notin> JStr ` set ?vals)"
    by (simp only: when_made_message one_of_def when_made_values_def)
  have rej: "post_listings rt w b =
            (w1, Sent (Reply 400 (Json (JObj [(''errors'', JArr (map JStr (validate rt ?g)))]))))"
    if h: "getValidAccessToken rt w = (Token access_token, w1) \<and> truthy access_token
       \<and> ?g ''when_made'' \<notin> JStr ` set ?vals"
  proof -
    from h iff have "''Invalid when_made value'' \<in> set (validate rt ?g)" by blast
    then have "validate rt ?g \<noteq> []" by auto
    then show ?thesis
      using post_listings_token [of rt w access_token w1 b] h
      by (simp add: validation_reply_def)
  qed
  from iff rej show ?thesis by blast
qed

lemma validate_old_when_made:
  "validate (sample_env up) (member_of (JObj [(''when_made'', JStr ''2020_2023'')])) =
     [''title is required'', ''description is required'', ''price must be a positive number'',
      ''quantity must be a positive integer'',
      ''who_made must be one of: i_did, someone_else, collective'',
      ''Invalid when_made value'', ''Sku required'', ''taxonomy_id must be a positive integer'']"
  by (simp add: validate_def check_def missing_text_def js_Number_def isNaN_def one_of_def
      when_made_values_def)

theorem when_made_enumeration_witness:
  "post_listings (sample_env (answers JNull)) logged_in_world
       (JObj [(''when_made'', JStr ''2020_2023'')]) =
     (logged_in_world\<lparr>calls := [GetUsersMe (JStr ''token-1'')]\<rparr>,
      Sent (Reply 400 (Json (JObj [(''errors'', JArr (map JStr
        [''title is required'', ''description is required'',
         ''price must be a positive number'', ''quantity must be a positive integer'',
         ''who_made must be one of: i_did, someone_else, collective'',
         ''Invalid when_made value'', ''Sku required'',
         ''taxonomy_id must be a positive integer'']))]))))"
proof -
  let ?b = "JObj [(''when_made'', JStr ''2020_2023'')]"
  have g: "member_of (js_or ?b (JObj [])) = member_of ?b"
    by (simp add: js_or_def)
  have n: "member_of (js_or ?b (JObj [])) ''when_made'' \<notin> JStr ` set
          [''made_to_order'', ''2020_2024'', ''2010_2019'', ''2006_2009'', ''before_2006'',
           ''2000_2005'', ''1990s'', ''1980s'', ''1970s'', ''1960s'', ''1950s'', ''1940s'',
           ''1930s'', ''1920s'', ''1910s'', ''1900s'', ''1800s'', ''1700s'', ''before_1700'']"
    by (simp add: g)
  have t: "truthy (JStr ''token-1'')" by simp
  from when_made_enumeration [where rt = "sample_env (answers JNull)" and w = logged_in_world
      and b = ?b and ?access_token = "JStr ''token-1''"
      and ?w1.0 = "logged_in_world\<lparr>calls := [GetUsersMe (JStr ''token-1'')]\<rparr>"]
    sample_token_ok [of JNull] t n
  have "post_listings (sample_env (answers JNull)) logged_in_world ?b =
          (logged_in_world\<lparr>calls := [GetUsersMe (JStr ''token-1'')]\<rparr>,
           Sent (Reply 400 (Json (JObj
             [(''errors'', JArr (map JStr
                (validate (sample_env (answers JNull)) (member_of (js_or ?b (JObj []))))))]))))"
    by blast
  then show ?thesis
    by (simp only: g validate_old_when_made)
qed

text \<open>
  C7, as the claim states it, for every request: with no token stored, a request whose
  \<open>when_made\<close> is \<open>2020_2023\<close> (not in the enumeration) is answered 401, not 400.
\<close>

theorem when_made_unauthenticated_counterexample:
  "member_of (js_or (JObj [(''when_made'', JStr ''2020_2023'')]) (JObj [])) ''when_made''
     = JStr ''2020_2023''
   \<and> post_listings (sample_env network_down) empty_world
        (JObj [(''when_made'', JStr ''2020_2023'')]) =
       (empty_world,
        Sent (Reply 401 (Text ''No access token available. Authenticate via /auth/login'')))"
  by (simp add: js_or_def post_listings_def getValidAccessToken_def getAccessTokenOr401_def
      readTokens_cases empty_world_def stored_token_def opt_chain_def nullish_def)

section \<open>Properties of the error replies\<close>

lemma relay_error_axios:
  "relay_error (AxiosError err) =
     Reply (case response err of Some r \<Rightarrow> if status r \<noteq> 0 then status r else 500 | None \<Rightarrow> 500)
           (Json (JObj [(''error'',
              case response err of
                Some r \<Rightarrow> if truthy (data r) then data r else JStr (message err)
              | None \<Rightarrow> JStr (message err))]))"
  by (simp add: relay_error_def err_payload_def js_or_def split: option.splits)

text \<open>
  C8, amended. When the create-draft call of \<open>POST /listings\<close> fails, the error is relayed:
  the reply has the status of the upstream response (500 when the failed call carried no
  response) and the body \<open>{error: ...}\<close> holding the upstream body (the error message when
  there is no response or its body is falsy). \<open>GET /auth/callback\<close> and
  \<open>POST /token/refresh\<close> do not relay: when their upstream call fails they answer 500 with
  a fixed text, whatever the upstream answered.
\<close>

theorem upstream_failure_replies:
  "(getValidAccessToken rt w = (Token access_token, w1) \<and> truthy access_token
      \<and> validate rt (member_of (js_or b (JObj []))) = []
      \<and> upstream rt (calls w1)
            (CreateListing access_token (build_payload (member_of (js_or b (JObj []))))) = Rejected err
    \<longrightarrow> snd (post_listings rt w b) =
         Sent (Reply (case response err of
                        Some r \<Rightarrow> if status r \<noteq> 0 then status r else 500
                      | None \<Rightarrow> 500)
                 (Json (JObj [(''error'',
                    case response err of
                      Some r \<Rightarrow> if truthy (data r) then data r else JStr (message err)
                    | None \<Rightarrow> JStr (message err))]))))
   \<and> (\<not> present (q_error q) \<and> present (q_code q) \<and> present (q_state q)
      \<and> pkce_get (pkceStore w) (qstr (q_state q)) \<noteq> Absent
      \<and> upstream rt (calls w)
            (TokenExchange (qstr (q_code q))
               (entry_verifier (pkce_get (pkceStore w) (qstr (q_state q))))) = Rejected err
    \<longrightarrow> snd (auth_callback rt w q) =
         Sent (Reply 500 (Text ''Token exchange failed. Check server logs for details.'')))
   \<and> (readTokens rt (token_file w) = Inr store \<and> truthy (stored_token store ''refresh_token'')
      \<and> upstream rt (calls w) (TokenRefresh (stored_token store ''refresh_token'')) = Rejected err
    \<longrightarrow> snd (token_refresh rt w) = Sent (Reply 500 (Text ''Token refresh failed.'')))"
proof (intro conjI impI)
  assume h: "getValidAccessToken rt w = (Token access_token, w1) \<and> truthy access_token
      \<and> validate rt (member_of (js_or b (JObj []))) = []
      \<and> upstream rt (calls w1)
            (CreateListing access_token (build_payload (member_of (js_or b (JObj []))))) = Rejected err"
  then have "listing_try rt w1 access_token (member_of (js_or b (JObj [])))
               = (w1\<lparr>calls := calls w1 @ [CreateListing access_token
                     (build_payload (member_of (js_or b (JObj []))))]\<rparr>, Inl (AxiosError err))"
    by (simp add: listing_try_def http_def)
  with h have "snd (post_listings rt w b) = Sent (relay_error (AxiosError err))"
    using post_listings_token [of rt w access_token w1 b] by simp
  then show "snd (post_listings rt w b) =
         Sent (Reply (case response err of
                        Some r \<Rightarrow> if status r \<noteq> 0 then status r else 500
                      | None \<Rightarrow> 500)
                 (Json (JObj [(''error'',
                    case response err of
                      Some r \<Rightarrow> if truthy (data r) then data r else JStr (message err)
                    | None \<Rightarrow> JStr (message err))])))"
    by (simp only: relay_error_axios)
next
  assume "\<not> present (q_error q) \<and> present (q_code q) \<and> present (q_state q)
      \<and> pkce_get (pkceStore w) (qstr (q_state q)) \<noteq> Absent
      \<and> upstream rt (calls w)
            (TokenExchange (qstr (q_code q))
               (entry_verifier (pkce_get (pkceStore w) (qstr (q_state q))))) = Rejected err"
  then show "snd (auth_callback rt w q) =
         Sent (Reply 500 (Text ''Token exchange failed. Check server logs for details.''))"
    by (simp add: auth_callback_def Let_def callback_try_def http_def)
next
  assume "readTokens rt (token_file w) = Inr store \<and> truthy (stored_token store ''refresh_token'')
      \<and> upstream rt (calls w) (TokenRefresh (stored_token store ''refresh_token'')) = Rejected err"
  then show "snd (token_refresh rt w) = Sent (Reply 500 (Text ''Token refresh failed.''))"
    by (simp add: token_refresh_def Let_def refresh_try_def http_def)
qed

text \<open>
  C8, as the claim states it: the refresh endpoint would relay the upstream status. Here
  the token endpoint answers 400 with a body, and the reply is 500 with a fixed text.
\<close>

theorem refresh_failure_counterexample:
  "upstream (sample_env (refuses 400 (JObj [(''error'', JStr ''invalid_grant'')]))) []
       (TokenRefresh (JStr ''refresh-1''))
     = Rejected \<lparr>response = Some \<lparr>status = 400, data = JObj [(''error'', JStr ''invalid_grant'')]\<rparr>,
                 message = ''Request failed''\<rparr>
   \<and> token_refresh (sample_env (refuses 400 (JObj [(''error'', JStr ''invalid_grant'')])))
       logged_in_world
     = (logged_in_world\<lparr>calls := [TokenRefresh (JStr ''refresh-1'')]\<rparr>,
        Sent (Reply 500 (Text ''Token refresh failed.'')))"
  by (simp add: token_refresh_def readTokens_sample logged_in_world_def stored_token_def
      opt_chain_def nullish_def sample_store_def refresh_try_def http_def)
     (simp add: sample_env_def refuses_def)

lemma sample_token_draft:
  "getValidAccessToken (sample_env draft_refused) logged_in_world
     = (Token (JStr ''token-1''), logged_in_world\<lparr>calls := [GetUsersMe (JStr ''token-1'')]\<rparr>)"
  by (simp add: getValidAccessToken_def sample_stored_token http_def)
     (simp add: logged_in_world_def sample_env_def draft_refused_def)

text \<open>
  The validity probe of \<open>POST /listings\<close> runs outside the \<open>try\<close> of the handler: when
  it fails for another reason than an expired token, \<open>getValidAccessToken\<close> rethrows and
  the handler sends nothing.
\<close>

lemma probe_failure_unhandled:
  "snd (post_listings (sample_env network_down) logged_in_world sample_listing)
     = Unhandled (AxiosError \<lparr>response = None, message = ''connect ECONNREFUSED''\<rparr>)"
  by (simp add: post_listings_def getValidAccessToken_def sample_stored_token http_def
      signals_expired_def err_data_def opt_chain_def nullish_def)
     (simp add: sample_env_def network_down_def signals_expired_def err_data_def opt_chain_def
      nullish_def)

theorem upstream_failure_replies_witness:
  "snd (post_listings (sample_env draft_refused) logged_in_world sample_listing)
     = Sent (Reply 422 (Json (JObj [(''error'', JObj [(''error'', JStr ''Invalid taxonomy'')])])))
   \<and> snd (auth_callback (sample_env (refuses 400 (JObj [(''error'', JStr ''invalid_grant'')])))
            pending_login_world (callback_of ''abc'' ''5f3a9c0d1e2b4a67''))
     = Sent (Reply 500 (Text ''Token exchange failed. Check server logs for details.''))
   \<and> snd (token_refresh (sample_env (refuses 400 (JObj [(''error'', JStr ''invalid_grant'')])))
            logged_in_world)
     = Sent (Reply 500 (Text ''Token refresh failed.''))"
proof -
  let ?no = "sample_env (refuses 400 (JObj [(''error'', JStr ''invalid_grant'')]))"
  have g: "member_of (js_or sample_listing (JObj [])) = member_of sample_listing"
    by (simp add: js_or_def sample_listing_def)
  have a: "snd (post_listings (sample_env draft_refused) logged_in_world sample_listing)
     = Sent (Reply 422 (Json (JObj [(''error'', JObj [(''error'', JStr ''Invalid taxonomy'')])])))"
    using upstream_failure_replies [where rt = "sample_env draft_refused" and w = logged_in_world
        and access_token = "JStr ''token-1''" and b = sample_listing
        and ?w1.0 = "logged_in_world\<lparr>calls := [GetUsersMe (JStr ''token-1'')]\<rparr>"
        and err = "\<lparr>response = Some \<lparr>status = 422,
                                      data = JObj [(''error'', JStr ''Invalid taxonomy'')]\<rparr>,
                    message = ''Request failed with status code 422''\<rparr>"]
      sample_token_draft
    by (simp add: g validate_sample) (simp add: sample_env_def draft_refused_def)
  have c: "snd (auth_callback ?no pending_login_world (callback_of ''abc'' ''5f3a9c0d1e2b4a67''))
     = Sent (Reply 500 (Text ''Token exchange failed. Check server logs for details.''))"
    using upstream_failure_replies [where rt = ?no and w = pending_login_world
        and q = "callback_of ''abc'' ''5f3a9c0d1e2b4a67''"
        and err = "\<lparr>response = Some \<lparr>status = 400, data = JObj [(''error'', JStr ''invalid_grant'')]\<rparr>,
                 message = ''Request failed''\<rparr>"]
    by (simp add: callback_of_def present_def qstr_def pending_login_world_def pkce_get_def
        sample_env_def refuses_def)
  have d: "snd (token_refresh ?no logged_in_world) = Sent (Reply 500 (Text ''Token refresh failed.''))"
    using upstream_failure_replies [where rt = ?no and w = logged_in_world
        and store = sample_store
        and err = "\<lparr>response = Some \<lparr>status = 400, data = JObj [(''error'', JStr ''invalid_grant'')]\<rparr>,
                 message = ''Request failed''\<rparr>"]
      readTokens_sample [of "refuses 400 (JObj [(''error'', JStr ''invalid_grant'')])"]
    by (simp add: logged_in_world_def stored_token_def opt_chain_def nullish_def sample_store_def)
       (simp add: sample_env_def refuses_def)
  from a c d show ?thesis by blast
qed

section \<open>Properties of the token check\<close>










section \<open>Properties of the image upload\<close>



lemma error_msg_text:
  "error_msg (FsError m) = JStr m" "error_msg not_a_path = JStr ''The path argument must be a string without null bytes''"
  by (simp_all add: error_msg_def exn_data_def opt_chain_def js_or_def not_a_path_def)

















lemma should_retry_other:
  "error_msg e = JStr m \<Longrightarrow> \<not> str_includes m transient_text \<Longrightarrow>
     should_retry e attempt mx = Inr False"
  by (simp add: should_retry_def js_includes_def)









lemma sample_not_url:
  "\<not> isUrl (sample_env up) local_image" "\<not> isUrl (sample_env up) rejected_image"
  "\<not> isUrl (sample_env up) third_image" "\<not> isUrl (sample_env up) (JNum n)"
  "isUrl (sample_env up) remote_image"
  by (simp_all add: isUrl_def js_String_def local_image_def rejected_image_def third_image_def
      remote_image_def url_prefix_def starts_with_def sample_env_def)






section \<open>Properties of the image loop\<close>




















text \<open>
  Why the statements on the ids ask that no local file operation throws: when the removal
  of the temporary file fails after an upload that the upstream accepted, the throw lands
  in the \<open>catch\<close> clause as if the upload had failed, the removal is tried again in
  \<open>finally\<close>, and \<open>uploadImageWithRetry\<close> throws; the id of the accepted upload is lost.
\<close>

lemma unlink_failure_loses_upload:
  "uploadImageWithRetry (unlink_fails (sample_env images_mixed)) a l remote_image i 3 w
     = (Throws (FsError ''EPERM: operation not permitted''),
        w\<lparr>calls := calls w @ [DownloadImage remote_image,
                                UploadImage a l remote_image (show_nat (i + 1))],
           fs_log := fs_log w @ [WriteTemp remote_image, UnlinkTemp remote_image,
                                  UnlinkTemp remote_image]\<rparr>)
   \<and> accepted (unlink_fails (sample_env images_mixed)) hist
        [DownloadImage remote_image, UploadImage a l remote_image (show_nat (i + 1))]
     = [(remote_image, ''img-'' @ show_nat (i + 1))]"
proof -
  let ?rt = "unlink_fails (sample_env images_mixed)"
  let ?e = "FsError ''EPERM: operation not permitted''"
  have "error_msg ?e = JStr ''EPERM: operation not permitted''"
       "\<not> str_includes ''EPERM: operation not permitted'' transient_text"
    by (simp_all add: error_msg_text transient_text_def starts_with_def)
  then have pe: "pass_end (Inl ?e) 0 3 = Break"
    using should_retry_other [of ?e "''EPERM: operation not permitted''" 0 3]
    by (simp add: pass_end_def)
  have tr: "upload_try ?rt a l remote_image i w
              = (Inl ?e, True,
                 w\<lparr>calls := calls w @ [DownloadImage remote_image,
                                UploadImage a l remote_image (show_nat (i + 1))],
                    fs_log := fs_log w @ [WriteTemp remote_image, UnlinkTemp remote_image]\<rparr>)"
    by (simp add: upload_try_def fetch_remote_def isUrl_def js_String_def url_prefix_def
        starts_with_def http_def local_op_def unlink_fails_def
        remote_image_def rejected_image_def third_image_def sample_env_def images_mixed_def)
  have "uploadImageWithRetry ?rt a l remote_image i 3 w
     = (Throws ?e,
        w\<lparr>calls := calls w @ [DownloadImage remote_image,
                                UploadImage a l remote_image (show_nat (i + 1))],
           fs_log := fs_log w @ [WriteTemp remote_image, UnlinkTemp remote_image,
                                  UnlinkTemp remote_image]\<rparr>)"
    using tr pe
    by (simp add: uploadImageWithRetry_def uploadImageWithRetry_from.simps [of _ _ _ _ _ 3 0]
        upload_pass_def finally_unlink_def local_op_def)
       (simp add: unlink_fails_def)
  moreover have "accepted ?rt hist
        [DownloadImage remote_image, UploadImage a l remote_image (show_nat (i + 1))]
     = [(remote_image, ''img-'' @ show_nat (i + 1))]"
    by (simp add: unlink_fails_def sample_env_def images_mixed_def remote_image_def
        rejected_image_def third_image_def js_String_def)
  ultimately show ?thesis by simp
qed












end
